theory Spec2Isabelle
  imports Main
begin

section \<open>Data model\<close>

text \<open>
  The three services of the repository (\<^verbatim>\<open>CampusTeacherService\<close>,
  \<^verbatim>\<open>TeacherCampusService\<close>, \<^verbatim>\<open>CampusStudentService\<close>) read and write
  relational tables through a database client. The store is an explicit value; every
  operation takes it and returns it together with its result, so that a write made before
  a later failure stays visible, as it does in a store without a transaction around the
  call.

  Identifiers of users, teachers, students, campuses, classes and subjects are strings.
  Row ids (\<^verbatim>\<open>gen_random_uuid()\<close>, \<^verbatim>\<open>cuid()\<close>) come from a counter of the
  store that only grows. Timestamps (\<^verbatim>\<open>joinedAt\<close>, \<^verbatim>\<open>createdAt\<close>,
  \<^verbatim>\<open>updatedAt\<close>) are left out of the rows.
\<close>

type_synonym ident = string

datatype Status = ACTIVE | INACTIVE | ARCHIVED

datatype CampusPermission = MANAGE_CAMPUS_TEACHERS | MANAGE_CAMPUS_STUDENTS | VIEW_CAMPUS_CLASSES

text \<open>
  The codes of \<^verbatim>\<open>TRPCError\<close> the services throw, and \<open>STORE_ERROR\<close> for an
  exception of the database client (a violated constraint) that no handler catches.
\<close>

datatype error = NOT_FOUND | CONFLICT | FORBIDDEN | BAD_REQUEST | INTERNAL_SERVER_ERROR | STORE_ERROR

text \<open>
  A row of \<^verbatim>\<open>"TeacherCampus"\<close> or of \<^verbatim>\<open>studentCampus\<close>: the two tables have
  the same columns, \<open>personId\<close> being \<^verbatim>\<open>teacherId\<close> in the first and
  \<^verbatim>\<open>studentId\<close> in the second.
\<close>

record campus_row =
  rowId :: nat
  personId :: ident
  campusId :: ident
  isPrimary :: bool
  status :: Status

record class_row =
  classRowId :: nat
  teacherCampusId :: nat
  classId :: ident
  isClassTeacher :: bool
  classStatus :: Status

record subject_row =
  subjectRowId :: nat
  teacherClassAssignmentId :: nat
  subjectId :: ident
  subjectStatus :: Status

text \<open>
  The store. \<open>userRoles\<close> gives the role names of each user. A class carries two
  campuses, which nothing in the repository keeps equal: \<open>classes\<close> gives, for each
  class id, the value of \<^verbatim>\<open>class_.classGroup.program.campusId\<close>, the campus
  \<^verbatim>\<open>assignTeacherToClass\<close> resolves for a class, \<open>None\<close> when the program carries
  none; \<open>Class_campusId\<close> gives, for each class id, the column \<^verbatim>\<open>campusId\<close> of the
  row of \<^verbatim>\<open>Class\<close> itself, which the router sets from its input when it creates the
  class. The tables the services only read come first.
\<close>

record db =
  userRoles :: "(ident \<times> string list) list"
  teacherProfile :: "ident list"
  student :: "ident list"
  campus :: "ident list"
  classes :: "(ident \<times> ident option) list"
  Class_campusId :: "(ident \<times> ident) list"
  subject :: "ident list"
  TeacherCampus :: "campus_row list"
  StudentCampus :: "campus_row list"
  TeacherClassAssignment :: "class_row list"
  TeacherSubjectAssignment :: "subject_row list"
  nextId :: nat

text \<open>The object the services of \<^verbatim>\<open>CampusTeacherService\<close> build and return.\<close>

datatype TeacherCampusAssignment =
  TeacherCampusAssignment (a_teacherId: ident) (a_campusId: ident) (a_isPrimary: bool) (a_status: Status)

datatype Success = Success

section \<open>Statements on the assignment tables\<close>

text \<open>\<^verbatim>\<open>SELECT * FROM t WHERE "teacherId" = p AND "campusId" = c\<close>\<close>

definition selectByPair :: "ident \<Rightarrow> ident \<Rightarrow> campus_row list \<Rightarrow> campus_row list" where
  "selectByPair p c rows = filter (\<lambda>r. personId r = p \<and> campusId r = c) rows"

text \<open>\<^verbatim>\<open>UPDATE t SET "isPrimary" = false WHERE "teacherId" = p AND "isPrimary" = true\<close>:
  no condition on the status.\<close>

definition unsetPrimary :: "ident \<Rightarrow> campus_row list \<Rightarrow> campus_row list" where
  "unsetPrimary p rows =
     map (\<lambda>r. if personId r = p \<and> isPrimary r then r\<lparr>isPrimary := False\<rparr> else r) rows"

text \<open>\<^verbatim>\<open>UPDATE t SET "isPrimary" = true WHERE "teacherId" = p AND "campusId" = c\<close>\<close>

definition setPrimaryWhere :: "ident \<Rightarrow> ident \<Rightarrow> campus_row list \<Rightarrow> campus_row list" where
  "setPrimaryWhere p c rows =
     map (\<lambda>r. if personId r = p \<and> campusId r = c then r\<lparr>isPrimary := True\<rparr> else r) rows"

text \<open>\<^verbatim>\<open>UPDATE t SET "status" = s WHERE "teacherId" = p AND "campusId" = c\<close>\<close>

definition setStatusWhere :: "ident \<Rightarrow> ident \<Rightarrow> Status \<Rightarrow> campus_row list \<Rightarrow> campus_row list" where
  "setStatusWhere p c s rows =
     map (\<lambda>r. if personId r = p \<and> campusId r = c then r\<lparr>status := s\<rparr> else r) rows"

text \<open>\<^verbatim>\<open>UPDATE t SET status = s WHERE id = i\<close>\<close>

definition setStatusById :: "nat \<Rightarrow> Status \<Rightarrow> campus_row list \<Rightarrow> campus_row list" where
  "setStatusById i s rows = map (\<lambda>r. if rowId r = i then r\<lparr>status := s\<rparr> else r) rows"

text \<open>
  An insertion into an assignment table. The table has a primary key on the id, a unique
  index on the pair (person, campus) and foreign keys to the person and to the campus; a
  row that violates one of them is refused (\<open>None\<close>).
\<close>

definition insertCampusRow ::
  "ident list \<Rightarrow> ident list \<Rightarrow> campus_row \<Rightarrow> campus_row list \<Rightarrow> campus_row list option" where
  "insertCampusRow persons campuses r rows =
     (if rowId r \<in> set (map rowId rows) \<or> selectByPair (personId r) (campusId r) rows \<noteq> []
         \<or> personId r \<notin> set persons \<or> campusId r \<notin> set campuses
      then None else Some (rows @ [r]))"

text \<open>
  What an \<^verbatim>\<open>INSERT INTO "TeacherCampus"\<close> gives the column \<^verbatim>\<open>"id"\<close>:
  \<^verbatim>\<open>TeacherCampusService\<close> lists the column and writes \<^verbatim>\<open>gen_random_uuid()\<close>;
  the statement of \<^verbatim>\<open>CampusTeacherService.assignTeacherToCampus\<close> does not list the
  column. The migration declares \<^verbatim>\<open>"id" TEXT NOT NULL\<close> with no default, so a
  statement that leaves the column out is refused.
\<close>

datatype id_value = gen_random_uuid | id_omitted

definition insert_TeacherCampus ::
  "id_value \<Rightarrow> ident \<Rightarrow> ident \<Rightarrow> bool \<Rightarrow> Status \<Rightarrow> db \<Rightarrow> (campus_row \<times> db) option" where
  "insert_TeacherCampus i t c p s d =
     (case i of
        id_omitted \<Rightarrow> None
      | gen_random_uuid \<Rightarrow>
          let r = \<lparr>rowId = nextId d, personId = t, campusId = c, isPrimary = p, status = s\<rparr>
          in case insertCampusRow (teacherProfile d) (campus d) r (TeacherCampus d) of
               None \<Rightarrow> None
             | Some rows \<Rightarrow> Some (r, d\<lparr>TeacherCampus := rows, nextId := Suc (nextId d)\<rparr>))"

definition insert_StudentCampus ::
  "ident \<Rightarrow> ident \<Rightarrow> bool \<Rightarrow> Status \<Rightarrow> db \<Rightarrow> (campus_row \<times> db) option" where
  "insert_StudentCampus t c p s d =
     (let r = \<lparr>rowId = nextId d, personId = t, campusId = c, isPrimary = p, status = s\<rparr>
      in case insertCampusRow (student d) (campus d) r (StudentCampus d) of
           None \<Rightarrow> None
         | Some rows \<Rightarrow> Some (r, d\<lparr>StudentCampus := rows, nextId := Suc (nextId d)\<rparr>))"

text \<open>
  The foreign keys of the class and subject tables are declared
  \<^verbatim>\<open>ON DELETE CASCADE\<close>: a \<^verbatim>\<open>DELETE\<close> on \<^verbatim>\<open>"TeacherClassAssignment"\<close>
  deletes the subject assignments that reference the deleted rows, and a
  \<^verbatim>\<open>DELETE\<close> on \<^verbatim>\<open>"TeacherCampus"\<close> deletes the class assignments that
  reference the deleted rows, and with these their subject assignments.
\<close>

definition delete_TeacherSubjectAssignment :: "(subject_row \<Rightarrow> bool) \<Rightarrow> db \<Rightarrow> db" where
  "delete_TeacherSubjectAssignment P d =
     d\<lparr>TeacherSubjectAssignment := filter (\<lambda>sa. \<not> P sa) (TeacherSubjectAssignment d)\<rparr>"

definition delete_TeacherClassAssignment :: "(class_row \<Rightarrow> bool) \<Rightarrow> db \<Rightarrow> db" where
  "delete_TeacherClassAssignment P d =
     (let gone = map classRowId (filter P (TeacherClassAssignment d))
      in delete_TeacherSubjectAssignment (\<lambda>sa. teacherClassAssignmentId sa \<in> set gone)
           (d\<lparr>TeacherClassAssignment := filter (\<lambda>ca. \<not> P ca) (TeacherClassAssignment d)\<rparr>))"

definition delete_TeacherCampus :: "(campus_row \<Rightarrow> bool) \<Rightarrow> db \<Rightarrow> db" where
  "delete_TeacherCampus P d =
     (let gone = map rowId (filter P (TeacherCampus d))
      in delete_TeacherClassAssignment (\<lambda>ca. teacherCampusId ca \<in> set gone)
           (d\<lparr>TeacherCampus := filter (\<lambda>r. \<not> P r) (TeacherCampus d)\<rparr>))"

text \<open>
  Insertions into the class and subject tables. Each table has a primary key on the id,
  a unique index on its pair of references and a foreign key for each reference.
\<close>

definition insert_TeacherClassAssignment ::
  "nat \<Rightarrow> ident \<Rightarrow> bool \<Rightarrow> Status \<Rightarrow> db \<Rightarrow> (class_row \<times> db) option" where
  "insert_TeacherClassAssignment tc c ict s d =
     (let r = \<lparr>classRowId = nextId d, teacherCampusId = tc, classId = c,
                isClassTeacher = ict, classStatus = s\<rparr>
      in if nextId d \<in> set (map classRowId (TeacherClassAssignment d))
            \<or> filter (\<lambda>ca. teacherCampusId ca = tc \<and> classId ca = c) (TeacherClassAssignment d) \<noteq> []
            \<or> tc \<notin> set (map rowId (TeacherCampus d))
            \<or> map_of (classes d) c = None
         then None
         else Some (r, d\<lparr>TeacherClassAssignment := TeacherClassAssignment d @ [r],
                         nextId := Suc (nextId d)\<rparr>))"

definition insert_TeacherSubjectAssignment ::
  "nat \<Rightarrow> ident \<Rightarrow> Status \<Rightarrow> db \<Rightarrow> db option" where
  "insert_TeacherSubjectAssignment ca sj s d =
     (let r = \<lparr>subjectRowId = nextId d, teacherClassAssignmentId = ca, subjectId = sj,
                subjectStatus = s\<rparr>
      in if nextId d \<in> set (map subjectRowId (TeacherSubjectAssignment d))
            \<or> filter (\<lambda>sa. teacherClassAssignmentId sa = ca \<and> subjectId sa = sj)
                 (TeacherSubjectAssignment d) \<noteq> []
            \<or> ca \<notin> set (map classRowId (TeacherClassAssignment d))
            \<or> sj \<notin> set (subject d)
         then None
         else Some (d\<lparr>TeacherSubjectAssignment := TeacherSubjectAssignment d @ [r],
                      nextId := Suc (nextId d)\<rparr>))"

section \<open>CampusTeacherService\<close>

text \<open>
  \<^verbatim>\<open>user?.userRoles?.some(userRole => userRole.role.name === 'super-admin')\<close>: a user
  that is not found is not a super-admin.
\<close>

definition isSuperAdmin :: "db \<Rightarrow> ident \<Rightarrow> bool" where
  "isSuperAdmin d userId =
     (case map_of (userRoles d) userId of None \<Rightarrow> False | Some rs \<Rightarrow> ''super-admin'' \<in> set rs)"

text \<open>
  \<^verbatim>\<open>CampusUserService.hasPermission\<close> is a parameter of every operation that asks it:
  \<open>hasPermission userId campusId permission\<close>.
\<close>

type_synonym permission_check = "ident \<Rightarrow> ident \<Rightarrow> CampusPermission \<Rightarrow> bool"

text \<open>
  \<^verbatim>\<open>assignTeacherToCampus\<close> checks the permission, the teacher, the campus and the
  pair, clears the primary flags of the teacher when \<^verbatim>\<open>isPrimary\<close> is set, and then
  runs its \<^verbatim>\<open>INSERT\<close>, which names the columns \<^verbatim>\<open>"teacherId"\<close>,
  \<^verbatim>\<open>"campusId"\<close>, \<^verbatim>\<open>"isPrimary"\<close>, \<^verbatim>\<open>"status"\<close> and the three timestamps
  and no \<^verbatim>\<open>"id"\<close>. The store refuses that statement, so a call that passes the four
  checks throws after the \<^verbatim>\<open>UPDATE\<close>; the code after the \<^verbatim>\<open>INSERT\<close>, which
  builds the object to return, is the last branch.
\<close>

definition CampusTeacherService_assignTeacherToCampus ::
  "permission_check \<Rightarrow> ident \<Rightarrow> ident \<Rightarrow> ident \<Rightarrow> bool \<Rightarrow> db \<Rightarrow> (error + TeacherCampusAssignment) \<times> db" where
  "CampusTeacherService_assignTeacherToCampus hasPermission userId cId tId isPrim d =
     (if \<not> isSuperAdmin d userId \<and> \<not> hasPermission userId cId MANAGE_CAMPUS_TEACHERS
      then (Inl FORBIDDEN, d)
      else if tId \<notin> set (teacherProfile d) then (Inl NOT_FOUND, d)
      else if cId \<notin> set (campus d) then (Inl NOT_FOUND, d)
      else if selectByPair tId cId (TeacherCampus d) \<noteq> [] then (Inl CONFLICT, d)
      else
        let d1 = (if isPrim then d\<lparr>TeacherCampus := unsetPrimary tId (TeacherCampus d)\<rparr> else d)
        in case insert_TeacherCampus id_omitted tId cId isPrim ACTIVE d1 of
             None \<Rightarrow> (Inl STORE_ERROR, d1)
           | Some (r, d2) \<Rightarrow> (Inr (TeacherCampusAssignment tId cId isPrim ACTIVE), d2))"

definition CampusTeacherService_removeTeacherFromCampus ::
  "permission_check \<Rightarrow> ident \<Rightarrow> ident \<Rightarrow> ident \<Rightarrow> db \<Rightarrow> (error + Success) \<times> db" where
  "CampusTeacherService_removeTeacherFromCampus hasPermission userId cId tId d =
     (if \<not> hasPermission userId cId MANAGE_CAMPUS_TEACHERS then (Inl FORBIDDEN, d)
      else if selectByPair tId cId (TeacherCampus d) = [] then (Inl NOT_FOUND, d)
      else (Inr Success, delete_TeacherCampus (\<lambda>r. personId r = tId \<and> campusId r = cId) d))"

definition CampusTeacherService_updateTeacherCampusStatus ::
  "permission_check \<Rightarrow> ident \<Rightarrow> ident \<Rightarrow> ident \<Rightarrow> Status \<Rightarrow> db \<Rightarrow> (error + TeacherCampusAssignment) \<times> db" where
  "CampusTeacherService_updateTeacherCampusStatus hasPermission userId cId tId s d =
     (if \<not> hasPermission userId cId MANAGE_CAMPUS_TEACHERS then (Inl FORBIDDEN, d)
      else case selectByPair tId cId (TeacherCampus d) of
        [] \<Rightarrow> (Inl NOT_FOUND, d)
      | r0 # _ \<Rightarrow>
          let d1 = d\<lparr>TeacherCampus := setStatusWhere tId cId s (TeacherCampus d)\<rparr>
          in if tId \<notin> set (teacherProfile d1) \<or> cId \<notin> set (campus d1)
             then (Inl INTERNAL_SERVER_ERROR, d1)
             else (Inr (TeacherCampusAssignment tId cId (isPrimary r0) s), d1))"

definition CampusTeacherService_setPrimaryCampus ::
  "ident \<Rightarrow> ident \<Rightarrow> ident \<Rightarrow> db \<Rightarrow> (error + TeacherCampusAssignment) \<times> db" where
  "CampusTeacherService_setPrimaryCampus userId tId cId d =
     (case selectByPair tId cId (TeacherCampus d) of
        [] \<Rightarrow> (Inl NOT_FOUND, d)
      | r0 # _ \<Rightarrow>
          let d1 = d\<lparr>TeacherCampus := unsetPrimary tId (TeacherCampus d)\<rparr>;
              d2 = d1\<lparr>TeacherCampus := setPrimaryWhere tId cId (TeacherCampus d1)\<rparr>
          in if tId \<notin> set (teacherProfile d2) \<or> cId \<notin> set (campus d2)
             then (Inl INTERNAL_SERVER_ERROR, d2)
             else (Inr (TeacherCampusAssignment tId cId True (status r0)), d2))"

section \<open>TeacherCampusService\<close>

text \<open>
  \<^verbatim>\<open>assignTeacherToCampus(data)\<close> takes the teacher, the campus, the primary flag and
  an optional status (\<^verbatim>\<open>status = Status.ACTIVE\<close> when absent); it has no acting user
  and asks for no permission. It returns the inserted row.
\<close>

definition TeacherCampusService_assignTeacherToCampus ::
  "ident \<Rightarrow> ident \<Rightarrow> bool \<Rightarrow> Status option \<Rightarrow> db \<Rightarrow> (error + campus_row) \<times> db" where
  "TeacherCampusService_assignTeacherToCampus tId cId isPrim st d =
     (let s = (case st of None \<Rightarrow> ACTIVE | Some s' \<Rightarrow> s')
      in if tId \<notin> set (teacherProfile d) then (Inl NOT_FOUND, d)
      else if cId \<notin> set (campus d) then (Inl NOT_FOUND, d)
      else if selectByPair tId cId (TeacherCampus d) \<noteq> [] then (Inl CONFLICT, d)
      else
        let d1 = (if isPrim then d\<lparr>TeacherCampus := unsetPrimary tId (TeacherCampus d)\<rparr> else d)
        in case insert_TeacherCampus gen_random_uuid tId cId isPrim s d1 of
             None \<Rightarrow> (Inl STORE_ERROR, d1)
           | Some (r, d2) \<Rightarrow> (Inr r, d2))"

text \<open>
  The loop \<^verbatim>\<open>for (const subjectId of subjectIds)\<close> of
  \<^verbatim>\<open>assignTeacherToClass\<close>: one insertion for each element of the list, in order,
  with no transaction around them. An insertion the store refuses throws, and the rows
  inserted before it stay. The result is whether the loop ran to its end, and the store.
\<close>

fun insertSubjects :: "nat \<Rightarrow> ident list \<Rightarrow> db \<Rightarrow> bool \<times> db" where
  "insertSubjects ca [] d = (True, d)"
| "insertSubjects ca (sj # sjs) d =
     (case insert_TeacherSubjectAssignment ca sj ACTIVE d of
        None \<Rightarrow> (False, d)
      | Some d' \<Rightarrow> insertSubjects ca sjs d')"

definition TeacherCampusService_assignTeacherToClass ::
  "nat \<Rightarrow> ident \<Rightarrow> bool \<Rightarrow> ident list \<Rightarrow> db \<Rightarrow> (error + class_row) \<times> db" where
  "TeacherCampusService_assignTeacherToClass tcId clId ict subjectIds d =
     (case filter (\<lambda>r. rowId r = tcId) (TeacherCampus d) of
        [] \<Rightarrow> (Inl NOT_FOUND, d)
      | teacherCampus # _ \<Rightarrow>
         (case map_of (classes d) clId of
            None \<Rightarrow> (Inl NOT_FOUND, d)
          | Some classCampusId \<Rightarrow>
             if classCampusId \<noteq> Some (campusId teacherCampus) then (Inl BAD_REQUEST, d)
             else
               (case insert_TeacherClassAssignment tcId clId ict ACTIVE d of
                  None \<Rightarrow> (Inl STORE_ERROR, d)
                | Some (classAssignment, d1) \<Rightarrow>
                    (case (if subjectIds \<noteq> []
                           then insertSubjects (classRowId classAssignment) subjectIds d1
                           else (True, d1)) of
                       (False, d2) \<Rightarrow> (Inl STORE_ERROR, d2)
                     | (True, d2) \<Rightarrow> (Inr classAssignment, d2)))))"

definition TeacherCampusService_updateAssignmentStatus ::
  "nat \<Rightarrow> Status \<Rightarrow> db \<Rightarrow> (error + campus_row) \<times> db" where
  "TeacherCampusService_updateAssignmentStatus tcId s d =
     (let d1 = d\<lparr>TeacherCampus := setStatusById tcId s (TeacherCampus d)\<rparr>
      in case filter (\<lambda>r. rowId r = tcId) (TeacherCampus d1) of
           [] \<Rightarrow> (Inl NOT_FOUND, d1)
         | updated # _ \<Rightarrow> (Inr updated, d1))"

text \<open>
  \<^verbatim>\<open>removeTeacherFromCampus\<close> runs its three \<^verbatim>\<open>DELETE\<close> statements in one
  \<^verbatim>\<open>$transaction\<close>; none of them can be refused.
\<close>

definition TeacherCampusService_removeTeacherFromCampus ::
  "ident \<Rightarrow> ident \<Rightarrow> db \<Rightarrow> (error + Success) \<times> db" where
  "TeacherCampusService_removeTeacherFromCampus tId cId d =
     (case selectByPair tId cId (TeacherCampus d) of
        [] \<Rightarrow> (Inl NOT_FOUND, d)
      | assignment # _ \<Rightarrow>
          let d1 = delete_TeacherSubjectAssignment
                     (\<lambda>sa. teacherClassAssignmentId sa \<in>
                        set (map classRowId
                          (filter (\<lambda>ca. teacherCampusId ca = rowId assignment)
                             (TeacherClassAssignment d)))) d;
              d2 = delete_TeacherClassAssignment (\<lambda>ca. teacherCampusId ca = rowId assignment) d1;
              d3 = delete_TeacherCampus (\<lambda>r. rowId r = rowId assignment) d2
          in (Inr Success, d3))"

section \<open>CampusStudentService\<close>

text \<open>
  The operations of \<^verbatim>\<open>CampusStudentService\<close> go through the typed client. Inside
  \<^verbatim>\<open>try\<close>, an exception that is not a \<^verbatim>\<open>TRPCError\<close> is rethrown as
  \<^verbatim>\<open>INTERNAL_SERVER_ERROR\<close>; \<^verbatim>\<open>update\<close> and \<^verbatim>\<open>delete\<close> on the unique
  pair throw when no row has it. Nothing is rolled back.
\<close>

definition CampusStudentService_assignStudentToCampus ::
  "permission_check \<Rightarrow> ident \<Rightarrow> ident \<Rightarrow> ident \<Rightarrow> bool \<Rightarrow> db \<Rightarrow> (error + campus_row) \<times> db" where
  "CampusStudentService_assignStudentToCampus hasPermission userId cId sId isPrim d =
     (if \<not> hasPermission userId cId MANAGE_CAMPUS_STUDENTS then (Inl FORBIDDEN, d)
      else if sId \<notin> set (student d) then (Inl NOT_FOUND, d)
      else if cId \<notin> set (campus d) then (Inl NOT_FOUND, d)
      else if selectByPair sId cId (StudentCampus d) \<noteq> [] then (Inl CONFLICT, d)
      else
        let d1 = (if isPrim then d\<lparr>StudentCampus := unsetPrimary sId (StudentCampus d)\<rparr> else d)
        in case insert_StudentCampus sId cId isPrim ACTIVE d1 of
             None \<Rightarrow> (Inl INTERNAL_SERVER_ERROR, d1)
           | Some (r, d2) \<Rightarrow> (Inr r, d2))"

definition CampusStudentService_removeStudentFromCampus ::
  "permission_check \<Rightarrow> ident \<Rightarrow> ident \<Rightarrow> ident \<Rightarrow> db \<Rightarrow> (error + Success) \<times> db" where
  "CampusStudentService_removeStudentFromCampus hasPermission userId cId sId d =
     (if \<not> hasPermission userId cId MANAGE_CAMPUS_STUDENTS then (Inl FORBIDDEN, d)
      else if selectByPair sId cId (StudentCampus d) = [] then (Inl INTERNAL_SERVER_ERROR, d)
      else (Inr Success,
            d\<lparr>StudentCampus :=
                 filter (\<lambda>r. \<not> (personId r = sId \<and> campusId r = cId)) (StudentCampus d)\<rparr>))"

definition CampusStudentService_updateStudentCampusStatus ::
  "permission_check \<Rightarrow> ident \<Rightarrow> ident \<Rightarrow> ident \<Rightarrow> Status \<Rightarrow> db \<Rightarrow> (error + campus_row) \<times> db" where
  "CampusStudentService_updateStudentCampusStatus hasPermission userId cId sId s d =
     (if \<not> hasPermission userId cId MANAGE_CAMPUS_STUDENTS then (Inl FORBIDDEN, d)
      else case selectByPair sId cId (StudentCampus d) of
        [] \<Rightarrow> (Inl INTERNAL_SERVER_ERROR, d)
      | r0 # _ \<Rightarrow>
          (Inr (r0\<lparr>status := s\<rparr>),
           d\<lparr>StudentCampus := setStatusWhere sId cId s (StudentCampus d)\<rparr>))"

definition CampusStudentService_setPrimaryCampus ::
  "permission_check \<Rightarrow> ident \<Rightarrow> ident \<Rightarrow> ident \<Rightarrow> db \<Rightarrow> (error + campus_row) \<times> db" where
  "CampusStudentService_setPrimaryCampus hasPermission userId sId cId d =
     (if \<not> hasPermission userId cId MANAGE_CAMPUS_STUDENTS then (Inl FORBIDDEN, d)
      else
        let d1 = d\<lparr>StudentCampus := unsetPrimary sId (StudentCampus d)\<rparr>
        in case selectByPair sId cId (StudentCampus d1) of
             [] \<Rightarrow> (Inl INTERNAL_SERVER_ERROR, d1)
           | r0 # _ \<Rightarrow>
               (Inr (r0\<lparr>isPrimary := True\<rparr>),
                d1\<lparr>StudentCampus := setPrimaryWhere sId cId (StudentCampus d1)\<rparr>))"

section \<open>Sequences of operations\<close>

text \<open>
  A call of one of the mutating operations of the three services, with its arguments, and
  the store it leaves, whether the call returned or threw.
\<close>

datatype operation =
    CT_assign ident ident ident bool
  | CT_remove ident ident ident
  | CT_updateStatus ident ident ident Status
  | CT_setPrimary ident ident ident
  | TC_assign ident ident bool "Status option"
  | TC_assignToClass nat ident bool "ident list"
  | TC_updateStatus nat Status
  | TC_remove ident ident
  | CS_assign ident ident ident bool
  | CS_remove ident ident ident
  | CS_updateStatus ident ident ident Status
  | CS_setPrimary ident ident ident

fun exec :: "permission_check \<Rightarrow> operation \<Rightarrow> db \<Rightarrow> db" where
  "exec hp (CT_assign u c t p) d = snd (CampusTeacherService_assignTeacherToCampus hp u c t p d)"
| "exec hp (CT_remove u c t) d = snd (CampusTeacherService_removeTeacherFromCampus hp u c t d)"
| "exec hp (CT_updateStatus u c t s) d =
     snd (CampusTeacherService_updateTeacherCampusStatus hp u c t s d)"
| "exec hp (CT_setPrimary u t c) d = snd (CampusTeacherService_setPrimaryCampus u t c d)"
| "exec hp (TC_assign t c p s) d = snd (TeacherCampusService_assignTeacherToCampus t c p s d)"
| "exec hp (TC_assignToClass tc cl ict sjs) d =
     snd (TeacherCampusService_assignTeacherToClass tc cl ict sjs d)"
| "exec hp (TC_updateStatus tc s) d = snd (TeacherCampusService_updateAssignmentStatus tc s d)"
| "exec hp (TC_remove t c) d = snd (TeacherCampusService_removeTeacherFromCampus t c d)"
| "exec hp (CS_assign u c s p) d = snd (CampusStudentService_assignStudentToCampus hp u c s p d)"
| "exec hp (CS_remove u c s) d = snd (CampusStudentService_removeStudentFromCampus hp u c s d)"
| "exec hp (CS_updateStatus u c s st) d =
     snd (CampusStudentService_updateStudentCampusStatus hp u c s st d)"
| "exec hp (CS_setPrimary u s c) d = snd (CampusStudentService_setPrimaryCampus hp u s c d)"

fun run :: "permission_check \<Rightarrow> operation list \<Rightarrow> db \<Rightarrow> db" where
  "run hp [] d = d"
| "run hp (x # xs) d = run hp xs (exec hp x d)"

section \<open>Invariants of the assignment tables\<close>

text \<open>
  The number of rows of a person that carry the primary flag, whatever their status.
\<close>

definition primaryCount :: "ident \<Rightarrow> campus_row list \<Rightarrow> nat" where
  "primaryCount p rows = length (filter (\<lambda>r. personId r = p \<and> isPrimary r) rows)"

text \<open>
  At most one primary row for every person, rows of every status counted: the persons of
  the primary rows are pairwise distinct.
\<close>

definition atMostOnePrimary :: "campus_row list \<Rightarrow> bool" where
  "atMostOnePrimary rows = distinct (map personId (filter isPrimary rows))"

text \<open>The unique index on the pair (person, campus).\<close>

definition uniquePairs :: "campus_row list \<Rightarrow> bool" where
  "uniquePairs rows = distinct (map (\<lambda>r. (personId r, campusId r)) rows)"

definition tableInv :: "campus_row list \<Rightarrow> bool" where
  "tableInv rows = (uniquePairs rows \<and> atMostOnePrimary rows)"

definition primaryInv :: "db \<Rightarrow> bool" where
  "primaryInv d = (tableInv (TeacherCampus d) \<and> tableInv (StudentCampus d))"

section \<open>An example store\<close>

text \<open>
  Teacher \<open>T1\<close> is assigned to campus \<open>C1\<close>, where it teaches class \<open>X2\<close> with
  subjects \<open>S1\<close> and \<open>S2\<close>, and to campus \<open>C2\<close>, its primary campus. Teacher
  \<open>T2\<close> has an archived assignment at \<open>C1\<close> that still carries the primary flag, and
  an inactive one at \<open>C2\<close>. Class \<open>X1\<close> belongs to campus \<open>C2\<close>. Class \<open>X3\<close>
  is a class of campus \<open>C1\<close> in a class group whose program is of campus \<open>C2\<close>.
  Student \<open>P1\<close> has its primary campus at \<open>C1\<close>. User \<open>admin\<close> may manage every campus but
  \<open>C3\<close>; user \<open>root\<close> is a super-admin; user \<open>guest\<close> may do nothing.
\<close>

definition exampleStore :: db where
  "exampleStore =
     \<lparr>userRoles = [(''root'', [''super-admin'']), (''admin'', [''campus-admin'']), (''guest'', [])],
      teacherProfile = [''T1'', ''T2''],
      student = [''P1''],
      campus = [''C1'', ''C2'', ''C3''],
      classes = [(''X1'', Some ''C2''), (''X2'', Some ''C1''), (''X3'', Some ''C2'')],
      Class_campusId = [(''X1'', ''C2''), (''X2'', ''C1''), (''X3'', ''C1'')],
      subject = [''S1'', ''S2''],
      TeacherCampus =
        [\<lparr>rowId = 1, personId = ''T1'', campusId = ''C1'', isPrimary = False, status = ACTIVE\<rparr>,
         \<lparr>rowId = 2, personId = ''T1'', campusId = ''C2'', isPrimary = True, status = ACTIVE\<rparr>,
         \<lparr>rowId = 3, personId = ''T2'', campusId = ''C1'', isPrimary = True, status = ARCHIVED\<rparr>,
         \<lparr>rowId = 4, personId = ''T2'', campusId = ''C2'', isPrimary = False, status = INACTIVE\<rparr>],
      StudentCampus =
        [\<lparr>rowId = 5, personId = ''P1'', campusId = ''C1'', isPrimary = True, status = ACTIVE\<rparr>],
      TeacherClassAssignment =
        [\<lparr>classRowId = 6, teacherCampusId = 1, classId = ''X2'', isClassTeacher = True,
          classStatus = ACTIVE\<rparr>],
      TeacherSubjectAssignment =
        [\<lparr>subjectRowId = 7, teacherClassAssignmentId = 6, subjectId = ''S1'', subjectStatus = ACTIVE\<rparr>,
         \<lparr>subjectRowId = 8, teacherClassAssignmentId = 6, subjectId = ''S2'', subjectStatus = ACTIVE\<rparr>],
      nextId = 9\<rparr>"

definition examplePermission :: permission_check where
  "examplePermission userId cId permission = (userId = ''admin'' \<and> cId \<noteq> ''C3'')"

text \<open>
  A sequence of calls on the example store. \<^verbatim>\<open>TeacherCampusService\<close> assigns \<open>T2\<close>
  to \<open>C3\<close> as primary campus, which inserts row 9 and clears the flag of the archived
  row. \<^verbatim>\<open>CampusTeacherService.assignTeacherToCampus\<close>, called by the super-admin for
  \<open>T1\<close> at \<open>C3\<close>, clears the primary flag of \<open>T1\<close> and throws at its
  \<^verbatim>\<open>INSERT\<close>. Then \<open>C1\<close> is made the primary campus of \<open>T1\<close>, the archived
  assignment of \<open>T2\<close> is made active, student \<open>P1\<close> is assigned to \<open>C2\<close> as
  primary campus (row 10) and \<open>C1\<close> is made the primary campus of \<open>P1\<close> again.
\<close>

definition exampleCalls :: "operation list" where
  "exampleCalls =
     [TC_assign ''T2'' ''C3'' True None,
      CT_assign ''root'' ''C3'' ''T1'' True,
      CT_setPrimary ''admin'' ''T1'' ''C1'',
      CT_updateStatus ''admin'' ''C1'' ''T2'' ACTIVE,
      CS_assign ''admin'' ''C2'' ''P1'' True,
      CS_setPrimary ''admin'' ''P1'' ''C1'']"

section \<open>Status of existing rows\<close>

text \<open>The operations that write the status column of an existing row.\<close>

fun isStatusUpdate :: "operation \<Rightarrow> bool" where
  "isStatusUpdate (CT_updateStatus u c t s) = True"
| "isStatusUpdate (TC_updateStatus tc s) = True"
| "isStatusUpdate (CS_updateStatus u c t s) = True"
| "isStatusUpdate x = False"

text \<open>
  \<open>keepsStatus n rows rows'\<close>: every row of \<open>rows'\<close> is the row with id \<open>n\<close> (the
  id an insertion of this call takes) or has the id, the person, the campus and the status
  of a row of \<open>rows\<close>. \<open>keeps\<close> says it of the two assignment tables of a store.
\<close>

definition keepsStatus :: "nat \<Rightarrow> campus_row list \<Rightarrow> campus_row list \<Rightarrow> bool" where
  "keepsStatus n rows rows' =
     (\<forall>r' \<in> set rows'. rowId r' = n \<or>
        (\<exists>r \<in> set rows. rowId r = rowId r' \<and> personId r = personId r'
                         \<and> campusId r = campusId r' \<and> status r = status r'))"

definition keeps :: "db \<Rightarrow> db \<Rightarrow> bool" where
  "keeps d d' = (keepsStatus (nextId d) (TeacherCampus d) (TeacherCampus d')
                 \<and> keepsStatus (nextId d) (StudentCampus d) (StudentCampus d'))"

section \<open>The primary campus of a person\<close>

text \<open>
  \<open>solePrimaryAt p c rows\<close>: among the rows of person \<open>p\<close>, of every status, the
  primary ones are exactly those at campus \<open>c\<close>, and there is at most one.
\<close>

definition solePrimaryAt :: "ident \<Rightarrow> ident \<Rightarrow> campus_row list \<Rightarrow> bool" where
  "solePrimaryAt p c rows =
     ((\<forall>r \<in> set rows. personId r = p \<longrightarrow> (isPrimary r \<longleftrightarrow> campusId r = c))
      \<and> primaryCount p rows \<le> 1)"

section \<open>References between the tables\<close>

text \<open>
  No orphans: every class assignment references a row of \<^verbatim>\<open>"TeacherCampus"\<close> and
  every subject assignment references a class assignment.
\<close>

definition noOrphans :: "db \<Rightarrow> bool" where
  "noOrphans d =
     ((\<forall>ca \<in> set (TeacherClassAssignment d). teacherCampusId ca \<in> set (map rowId (TeacherCampus d)))
      \<and> (\<forall>sa \<in> set (TeacherSubjectAssignment d).
            teacherClassAssignmentId sa \<in> set (map classRowId (TeacherClassAssignment d))))"

text \<open>
  \<open>removedFrom t c d d'\<close>: store \<open>d'\<close> is store \<open>d\<close> without the rows of
  \<^verbatim>\<open>"TeacherCampus"\<close> of the pair (teacher \<open>t\<close>, campus \<open>c\<close>), without the class
  assignments that reference these rows and without the subject assignments that
  reference those class assignments; every other row of the three tables, and the student
  table, is as it was.
\<close>

definition removedFrom :: "ident \<Rightarrow> ident \<Rightarrow> db \<Rightarrow> db \<Rightarrow> bool" where
  "removedFrom t c d d' =
     (let gone = set (map rowId (selectByPair t c (TeacherCampus d)));
          goneClasses = set (map classRowId
             (filter (\<lambda>ca. teacherCampusId ca \<in> gone) (TeacherClassAssignment d)))
      in TeacherCampus d' = filter (\<lambda>r. \<not> (personId r = t \<and> campusId r = c)) (TeacherCampus d)
       \<and> TeacherClassAssignment d' =
            filter (\<lambda>ca. teacherCampusId ca \<notin> gone) (TeacherClassAssignment d)
       \<and> TeacherSubjectAssignment d' =
            filter (\<lambda>sa. teacherClassAssignmentId sa \<notin> goneClasses) (TeacherSubjectAssignment d)
       \<and> StudentCampus d' = StudentCampus d)"




section \<open>Subject assignments of a class assignment\<close>

text \<open>
  Row ids come from the counter: every id of the class and subject tables, and every
  reference of a subject assignment to a class assignment, is below the counter.
\<close>

definition idsFromCounter :: "db \<Rightarrow> bool" where
  "idsFromCounter d =
     ((\<forall>ca \<in> set (TeacherClassAssignment d). classRowId ca < nextId d)
      \<and> (\<forall>sa \<in> set (TeacherSubjectAssignment d).
            subjectRowId sa < nextId d \<and> teacherClassAssignmentId sa < nextId d))"

text \<open>The pair the unique index of the subject table is on.\<close>

definition subjectKey :: "subject_row \<Rightarrow> nat \<times> ident" where
  "subjectKey sa = (teacherClassAssignmentId sa, subjectId sa)"

section \<open>Evaluating calls on the example store\<close>

lemmas example_defs = exampleStore_def examplePermission_def selectByPair_def unsetPrimary_def
  setPrimaryWhere_def setStatusWhere_def setStatusById_def insertCampusRow_def
  insert_TeacherCampus_def insert_StudentCampus_def insert_TeacherClassAssignment_def
  insert_TeacherSubjectAssignment_def delete_TeacherCampus_def
  delete_TeacherClassAssignment_def delete_TeacherSubjectAssignment_def isSuperAdmin_def Let_def

text \<open>
  The \<^verbatim>\<open>INSERT\<close> of \<^verbatim>\<open>CampusTeacherService.assignTeacherToCampus\<close> is refused on
  every store, so the call never returns an assignment: past its checks it throws, after
  the primary flags of the teacher have been cleared when \<^verbatim>\<open>isPrimary\<close> is set.
\<close>

lemma CT_assign_throws:
  "CampusTeacherService_assignTeacherToCampus hp u c t p d =
     (if \<not> isSuperAdmin d u \<and> \<not> hp u c MANAGE_CAMPUS_TEACHERS then (Inl FORBIDDEN, d)
      else if t \<notin> set (teacherProfile d) \<or> c \<notin> set (campus d) then (Inl NOT_FOUND, d)
      else if selectByPair t c (TeacherCampus d) \<noteq> [] then (Inl CONFLICT, d)
      else (Inl STORE_ERROR,
            if p then d\<lparr>TeacherCampus := unsetPrimary t (TeacherCampus d)\<rparr> else d))"
  by (simp add: CampusTeacherService_assignTeacherToCampus_def insert_TeacherCampus_def Let_def)

section \<open>Counting primary rows\<close>

lemma distinct_map_count:
  "distinct (map f xs) \<longleftrightarrow> (\<forall>k. length (filter (\<lambda>x. f x = k) xs) \<le> 1)"
proof (induction xs)
  case Nil
  then show ?case by simp
next
  case (Cons x xs)
  have a: "f x \<notin> f ` set xs \<longleftrightarrow> length (filter (\<lambda>y. f y = f x) xs) = 0"
    by (auto simp: filter_empty_conv image_iff)
  show ?case
  proof
    assume d: "distinct (map f (x # xs))"
    then have 1: "f x \<notin> f ` set xs" and 2: "\<forall>k. length (filter (\<lambda>x. f x = k) xs) \<le> 1"
      using Cons.IH by auto
    show "\<forall>k. length (filter (\<lambda>y. f y = k) (x # xs)) \<le> 1"
    proof
      fix k
      show "length (filter (\<lambda>y. f y = k) (x # xs)) \<le> 1"
        using 1 2 a by (cases "f x = k") auto
    qed
  next
    assume h: "\<forall>k. length (filter (\<lambda>y. f y = k) (x # xs)) \<le> 1"
    have "length (filter (\<lambda>y. f y = f x) (x # xs)) \<le> 1" using h by blast
    then have 1: "f x \<notin> f ` set xs" using a by simp
    have "\<forall>k. length (filter (\<lambda>y. f y = k) xs) \<le> 1"
    proof
      fix k
      have "length (filter (\<lambda>y. f y = k) (x # xs)) \<le> 1" using h by blast
      then show "length (filter (\<lambda>y. f y = k) xs) \<le> 1" by (simp split: if_splits)
    qed
    then show "distinct (map f (x # xs))" using 1 Cons.IH by simp
  qed
qed

lemma atMostOnePrimary_count:
  "atMostOnePrimary rows \<longleftrightarrow> (\<forall>p. primaryCount p rows \<le> 1)"
  unfolding atMostOnePrimary_def primaryCount_def distinct_map_count
  by (simp add: conj_commute)

lemma length_filter_map_pointwise:
  "(\<And>x. x \<in> set xs \<Longrightarrow> P (f x) = Q x) \<Longrightarrow> length (filter P (map f xs)) = length (filter Q xs)"
  by (induction xs) auto

lemma map_map_pointwise:
  "(\<And>x. x \<in> set xs \<Longrightarrow> g (f x) = g x) \<Longrightarrow> map g (map f xs) = map g xs"
  by (induction xs) auto

lemma primaryCount_unsetPrimary_same: "primaryCount p (unsetPrimary p rows) = 0"
proof -
  have "primaryCount p (unsetPrimary p rows) = length (filter (\<lambda>r. False) rows)"
    unfolding primaryCount_def unsetPrimary_def
    by (rule length_filter_map_pointwise) auto
  then show ?thesis by simp
qed

lemma primaryCount_unsetPrimary_other:
  "q \<noteq> p \<Longrightarrow> primaryCount q (unsetPrimary p rows) = primaryCount q rows"
  unfolding primaryCount_def unsetPrimary_def
  by (rule length_filter_map_pointwise) auto

lemma primaryCount_setPrimaryWhere_other:
  "q \<noteq> p \<Longrightarrow> primaryCount q (setPrimaryWhere p c rows) = primaryCount q rows"
  unfolding primaryCount_def setPrimaryWhere_def
  by (rule length_filter_map_pointwise) auto

lemma primaryCount_setPrimaryWhere_same:
  "primaryCount p rows = 0 \<Longrightarrow>
   primaryCount p (setPrimaryWhere p c rows) = length (selectByPair p c rows)"
  unfolding primaryCount_def setPrimaryWhere_def selectByPair_def
  by (rule length_filter_map_pointwise) (auto simp: filter_empty_conv)

lemma uniquePairs_select: "uniquePairs rows \<Longrightarrow> length (selectByPair p c rows) \<le> 1"
proof -
  assume "uniquePairs rows"
  then have "length (filter (\<lambda>r. (personId r, campusId r) = (p, c)) rows) \<le> 1"
    unfolding uniquePairs_def distinct_map_count by blast
  then show ?thesis by (simp add: selectByPair_def)
qed

lemma primaryCount_setStatusWhere [simp]:
  "primaryCount q (setStatusWhere p c s rows) = primaryCount q rows"
  unfolding primaryCount_def setStatusWhere_def
  by (rule length_filter_map_pointwise) auto

lemma primaryCount_setStatusById [simp]:
  "primaryCount q (setStatusById i s rows) = primaryCount q rows"
  unfolding primaryCount_def setStatusById_def
  by (rule length_filter_map_pointwise) auto

lemma primaryCount_filter: "primaryCount q (filter P rows) \<le> primaryCount q rows"
  unfolding primaryCount_def
  by (induction rows) simp_all

lemma primaryCount_append [simp]:
  "primaryCount q (rows @ [r]) = primaryCount q rows + (if personId r = q \<and> isPrimary r then 1 else 0)"
  by (simp add: primaryCount_def)

lemma pairs_unsetPrimary [simp]:
  "map (\<lambda>r. (personId r, campusId r)) (unsetPrimary p rows) = map (\<lambda>r. (personId r, campusId r)) rows"
  unfolding unsetPrimary_def
  by (rule map_map_pointwise) auto

lemma pairs_setPrimaryWhere [simp]:
  "map (\<lambda>r. (personId r, campusId r)) (setPrimaryWhere p c rows) = map (\<lambda>r. (personId r, campusId r)) rows"
  unfolding setPrimaryWhere_def
  by (rule map_map_pointwise) auto

lemma pairs_setStatusWhere [simp]:
  "map (\<lambda>r. (personId r, campusId r)) (setStatusWhere p c s rows) = map (\<lambda>r. (personId r, campusId r)) rows"
  unfolding setStatusWhere_def
  by (rule map_map_pointwise) auto

lemma pairs_setStatusById [simp]:
  "map (\<lambda>r. (personId r, campusId r)) (setStatusById i s rows) = map (\<lambda>r. (personId r, campusId r)) rows"
  unfolding setStatusById_def
  by (rule map_map_pointwise) auto

section \<open>Each statement keeps the invariant of its table\<close>

lemma tableInv_unsetPrimary: "tableInv rows \<Longrightarrow> tableInv (unsetPrimary p rows)"
  unfolding tableInv_def atMostOnePrimary_count uniquePairs_def
  by (metis pairs_unsetPrimary primaryCount_unsetPrimary_other primaryCount_unsetPrimary_same zero_le)

lemma tableInv_setPrimary:
  assumes "tableInv rows"
  shows "tableInv (setPrimaryWhere p c (unsetPrimary p rows))"
proof -
  have u: "uniquePairs (unsetPrimary p rows)"
    using assms by (simp add: tableInv_def uniquePairs_def)
  have "primaryCount q (setPrimaryWhere p c (unsetPrimary p rows)) \<le> 1" for q
  proof (cases "q = p")
    case True
    then show ?thesis
      using primaryCount_setPrimaryWhere_same[OF primaryCount_unsetPrimary_same, of p c rows]
        uniquePairs_select[OF u, of p c] by simp
  next
    case False
    then show ?thesis
      using assms
      by (simp add: primaryCount_setPrimaryWhere_other primaryCount_unsetPrimary_other
          tableInv_def atMostOnePrimary_count)
  qed
  then show ?thesis
    using u by (simp add: tableInv_def atMostOnePrimary_count uniquePairs_def)
qed

lemma tableInv_setStatusWhere: "tableInv rows \<Longrightarrow> tableInv (setStatusWhere p c s rows)"
  by (simp add: tableInv_def atMostOnePrimary_count uniquePairs_def)

lemma tableInv_setStatusById: "tableInv rows \<Longrightarrow> tableInv (setStatusById i s rows)"
  by (simp add: tableInv_def atMostOnePrimary_count uniquePairs_def)

lemma tableInv_filter: "tableInv rows \<Longrightarrow> tableInv (filter P rows)"
  unfolding tableInv_def atMostOnePrimary_count uniquePairs_def
  using primaryCount_filter[of _ P rows] by (meson distinct_map_filter le_trans)

lemma tableInv_insert:
  assumes "tableInv rows"
    and "insertCampusRow ps cs r (if isPrimary r then unsetPrimary (personId r) rows else rows) = Some rows'"
  shows "tableInv rows'"
proof -
  let ?rows1 = "if isPrimary r then unsetPrimary (personId r) rows else rows"
  have inv1: "tableInv ?rows1" using assms(1) by (simp add: tableInv_unsetPrimary)
  have eq: "rows' = ?rows1 @ [r]" and none: "selectByPair (personId r) (campusId r) ?rows1 = []"
    using assms(2) by (auto simp: insertCampusRow_def split: if_splits)
  have "(personId r, campusId r) \<notin> set (map (\<lambda>r. (personId r, campusId r)) ?rows1)"
    using none unfolding selectByPair_def filter_empty_conv by auto
  then have u: "uniquePairs rows'"
    using inv1 unfolding eq tableInv_def uniquePairs_def by simp
  have "primaryCount q rows' \<le> 1" for q
  proof (cases "personId r = q \<and> isPrimary r")
    case True
    then show ?thesis unfolding eq by (simp add: primaryCount_unsetPrimary_same)
  next
    case False
    then show ?thesis
      using inv1 unfolding eq tableInv_def atMostOnePrimary_count by auto
  qed
  then show ?thesis using u by (simp add: tableInv_def atMostOnePrimary_count)
qed

section \<open>What each operation leaves of the tables\<close>

lemma delete_TeacherSubjectAssignment_tables [simp]:
  "TeacherCampus (delete_TeacherSubjectAssignment P d) = TeacherCampus d"
  "StudentCampus (delete_TeacherSubjectAssignment P d) = StudentCampus d"
  "TeacherClassAssignment (delete_TeacherSubjectAssignment P d) = TeacherClassAssignment d"
  "TeacherSubjectAssignment (delete_TeacherSubjectAssignment P d) =
     filter (\<lambda>sa. \<not> P sa) (TeacherSubjectAssignment d)"
  "classes (delete_TeacherSubjectAssignment P d) = classes d"
  by (simp_all add: delete_TeacherSubjectAssignment_def)

lemma delete_TeacherClassAssignment_tables [simp]:
  "TeacherCampus (delete_TeacherClassAssignment P d) = TeacherCampus d"
  "StudentCampus (delete_TeacherClassAssignment P d) = StudentCampus d"
  "TeacherClassAssignment (delete_TeacherClassAssignment P d) =
     filter (\<lambda>ca. \<not> P ca) (TeacherClassAssignment d)"
  "TeacherSubjectAssignment (delete_TeacherClassAssignment P d) =
     filter (\<lambda>sa. teacherClassAssignmentId sa \<notin>
                set (map classRowId (filter P (TeacherClassAssignment d))))
       (TeacherSubjectAssignment d)"
  "classes (delete_TeacherClassAssignment P d) = classes d"
  by (simp_all add: delete_TeacherClassAssignment_def Let_def)

lemma delete_TeacherCampus_tables [simp]:
  "TeacherCampus (delete_TeacherCampus P d) = filter (\<lambda>r. \<not> P r) (TeacherCampus d)"
  "StudentCampus (delete_TeacherCampus P d) = StudentCampus d"
  "TeacherClassAssignment (delete_TeacherCampus P d) =
     filter (\<lambda>ca. teacherCampusId ca \<notin> set (map rowId (filter P (TeacherCampus d))))
       (TeacherClassAssignment d)"
  "TeacherSubjectAssignment (delete_TeacherCampus P d) =
     filter (\<lambda>sa. teacherClassAssignmentId sa \<notin>
                set (map classRowId
                  (filter (\<lambda>ca. teacherCampusId ca \<in> set (map rowId (filter P (TeacherCampus d))))
                     (TeacherClassAssignment d))))
       (TeacherSubjectAssignment d)"
  "classes (delete_TeacherCampus P d) = classes d"
  by (simp_all add: delete_TeacherCampus_def Let_def)

lemma insert_TeacherSubjectAssignment_tables:
  "insert_TeacherSubjectAssignment ca sj s d = Some d' \<Longrightarrow>
     TeacherCampus d' = TeacherCampus d \<and> StudentCampus d' = StudentCampus d
     \<and> TeacherClassAssignment d' = TeacherClassAssignment d \<and> classes d' = classes d"
  by (auto simp: insert_TeacherSubjectAssignment_def Let_def split: if_splits)

lemma insertSubjects_tables:
  "TeacherCampus (snd (insertSubjects ca sjs d)) = TeacherCampus d
   \<and> StudentCampus (snd (insertSubjects ca sjs d)) = StudentCampus d
   \<and> TeacherClassAssignment (snd (insertSubjects ca sjs d)) = TeacherClassAssignment d
   \<and> classes (snd (insertSubjects ca sjs d)) = classes d"
proof (induction sjs arbitrary: d)
  case Nil
  then show ?case by simp
next
  case (Cons sj sjs)
  show ?case
  proof (cases "insert_TeacherSubjectAssignment ca sj ACTIVE d")
    case None
    then show ?thesis by simp
  next
    case (Some d')
    then show ?thesis
      using Cons.IH[of d'] insert_TeacherSubjectAssignment_tables[OF Some] by simp
  qed
qed

lemma insert_TeacherClassAssignment_tables:
  "insert_TeacherClassAssignment tc c ict s d = Some (r, d') \<Longrightarrow>
     TeacherCampus d' = TeacherCampus d \<and> StudentCampus d' = StudentCampus d
     \<and> classes d' = classes d
     \<and> TeacherClassAssignment d' = TeacherClassAssignment d @ [r]
     \<and> teacherCampusId r = tc \<and> classId r = c \<and> classRowId r = nextId d"
  by (auto simp: insert_TeacherClassAssignment_def Let_def split: if_splits)

lemma assignTeacherToClass_tables:
  "TeacherCampus (snd (TeacherCampusService_assignTeacherToClass tc cl ict sjs d)) = TeacherCampus d
   \<and> StudentCampus (snd (TeacherCampusService_assignTeacherToClass tc cl ict sjs d)) = StudentCampus d"
  unfolding TeacherCampusService_assignTeacherToClass_def
  using insertSubjects_tables
  by (auto split: list.splits option.splits prod.splits bool.splits
      dest!: insert_TeacherClassAssignment_tables) (metis snd_conv)+

lemma insert_TeacherCampus_inv:
  assumes "primaryInv d"
    and "insert_TeacherCampus gen_random_uuid t c p s
           (if p then d\<lparr>TeacherCampus := unsetPrimary t (TeacherCampus d)\<rparr> else d) = Some (r, d')"
  shows "primaryInv d'"
proof -
  let ?r = "\<lparr>rowId = nextId d, personId = t, campusId = c, isPrimary = p, status = s\<rparr>"
  obtain rows' where
    i: "insertCampusRow (teacherProfile d) (campus d) ?r
          (if isPrimary ?r then unsetPrimary (personId ?r) (TeacherCampus d) else TeacherCampus d) = Some rows'"
    and d': "TeacherCampus d' = rows'" "StudentCampus d' = StudentCampus d"
    using assms(2) by (cases p) (auto simp: insert_TeacherCampus_def Let_def split: option.splits)
  show ?thesis
    using tableInv_insert[OF _ i] assms(1) d' by (simp add: primaryInv_def)
qed

lemma insert_StudentCampus_inv:
  assumes "primaryInv d"
    and "insert_StudentCampus t c p s
           (if p then d\<lparr>StudentCampus := unsetPrimary t (StudentCampus d)\<rparr> else d) = Some (r, d')"
  shows "primaryInv d'"
proof -
  let ?r = "\<lparr>rowId = nextId d, personId = t, campusId = c, isPrimary = p, status = s\<rparr>"
  obtain rows' where
    i: "insertCampusRow (student d) (campus d) ?r
          (if isPrimary ?r then unsetPrimary (personId ?r) (StudentCampus d) else StudentCampus d) = Some rows'"
    and d': "StudentCampus d' = rows'" "TeacherCampus d' = TeacherCampus d"
    using assms(2) by (cases p) (auto simp: insert_StudentCampus_def Let_def split: option.splits)
  show ?thesis
    using tableInv_insert[OF _ i] assms(1) d' by (simp add: primaryInv_def)
qed

lemma primaryInv_unset_teacher:
  "primaryInv d \<Longrightarrow> primaryInv (d\<lparr>TeacherCampus := unsetPrimary t (TeacherCampus d)\<rparr>)"
  by (simp add: primaryInv_def tableInv_unsetPrimary)

lemma primaryInv_unset_student:
  "primaryInv d \<Longrightarrow> primaryInv (d\<lparr>StudentCampus := unsetPrimary t (StudentCampus d)\<rparr>)"
  by (simp add: primaryInv_def tableInv_unsetPrimary)

lemma CT_assign_inv:
  assumes "primaryInv d"
  shows "primaryInv (snd (CampusTeacherService_assignTeacherToCampus hp u c t p d))"
  using assms primaryInv_unset_teacher[OF assms, of t] by (simp add: CT_assign_throws)

lemma TC_assign_inv:
  assumes "primaryInv d"
  shows "primaryInv (snd (TeacherCampusService_assignTeacherToCampus t c p st d))"
proof -
  define s where "s = (case st of None \<Rightarrow> ACTIVE | Some s' \<Rightarrow> s')"
  show ?thesis
  proof (cases "insert_TeacherCampus gen_random_uuid t c p s
           (if p then d\<lparr>TeacherCampus := unsetPrimary t (TeacherCampus d)\<rparr> else d)")
    case None
    then show ?thesis
      using assms primaryInv_unset_teacher[OF assms, of t]
      by (simp add: TeacherCampusService_assignTeacherToCampus_def Let_def s_def)
  next
    case (Some a)
    obtain r d' where a: "a = (r, d')" by (cases a)
    show ?thesis
      using assms insert_TeacherCampus_inv[OF assms Some[unfolded a]] Some a
      by (simp add: TeacherCampusService_assignTeacherToCampus_def Let_def s_def)
  qed
qed

lemma CS_assign_inv:
  assumes "primaryInv d"
  shows "primaryInv (snd (CampusStudentService_assignStudentToCampus hp u c t p d))"
proof (cases "insert_StudentCampus t c p ACTIVE
           (if p then d\<lparr>StudentCampus := unsetPrimary t (StudentCampus d)\<rparr> else d)")
  case None
  then show ?thesis
    using assms primaryInv_unset_student[OF assms, of t]
    by (simp add: CampusStudentService_assignStudentToCampus_def Let_def)
next
  case (Some a)
  obtain r d' where a: "a = (r, d')" by (cases a)
  show ?thesis
    using assms insert_StudentCampus_inv[OF assms Some[unfolded a]] Some a
    by (simp add: CampusStudentService_assignStudentToCampus_def Let_def)
qed

lemma CT_remove_inv:
  "primaryInv d \<Longrightarrow> primaryInv (snd (CampusTeacherService_removeTeacherFromCampus hp u c t d))"
  by (simp add: CampusTeacherService_removeTeacherFromCampus_def primaryInv_def tableInv_filter)

lemma TC_remove_inv:
  "primaryInv d \<Longrightarrow> primaryInv (snd (TeacherCampusService_removeTeacherFromCampus t c d))"
  by (simp add: TeacherCampusService_removeTeacherFromCampus_def primaryInv_def tableInv_filter
      Let_def split: list.splits)

lemma CS_remove_inv:
  "primaryInv d \<Longrightarrow> primaryInv (snd (CampusStudentService_removeStudentFromCampus hp u c t d))"
  by (simp add: CampusStudentService_removeStudentFromCampus_def primaryInv_def tableInv_filter)

lemma CT_updateStatus_inv:
  "primaryInv d \<Longrightarrow> primaryInv (snd (CampusTeacherService_updateTeacherCampusStatus hp u c t s d))"
  by (simp add: CampusTeacherService_updateTeacherCampusStatus_def primaryInv_def
      tableInv_setStatusWhere Let_def split: list.splits)

lemma TC_updateStatus_inv:
  "primaryInv d \<Longrightarrow> primaryInv (snd (TeacherCampusService_updateAssignmentStatus i s d))"
  by (simp add: TeacherCampusService_updateAssignmentStatus_def primaryInv_def
      tableInv_setStatusById Let_def split: list.splits)

lemma CS_updateStatus_inv:
  "primaryInv d \<Longrightarrow> primaryInv (snd (CampusStudentService_updateStudentCampusStatus hp u c t s d))"
  by (simp add: CampusStudentService_updateStudentCampusStatus_def primaryInv_def
      tableInv_setStatusWhere split: list.splits)

lemma CT_setPrimary_inv:
  "primaryInv d \<Longrightarrow> primaryInv (snd (CampusTeacherService_setPrimaryCampus u t c d))"
  by (simp add: CampusTeacherService_setPrimaryCampus_def primaryInv_def
      tableInv_setPrimary Let_def split: list.splits)

lemma CS_setPrimary_inv:
  "primaryInv d \<Longrightarrow> primaryInv (snd (CampusStudentService_setPrimaryCampus hp u t c d))"
  by (simp add: CampusStudentService_setPrimaryCampus_def primaryInv_def
      tableInv_setPrimary tableInv_unsetPrimary Let_def split: list.splits)

lemma TC_assignToClass_inv:
  "primaryInv d \<Longrightarrow> primaryInv (snd (TeacherCampusService_assignTeacherToClass tc cl ict sjs d))"
  by (simp add: primaryInv_def assignTeacherToClass_tables)

lemma exec_inv: "primaryInv d \<Longrightarrow> primaryInv (exec hp x d)"
  by (cases x)
    (simp_all add: CT_assign_inv CT_remove_inv CT_updateStatus_inv CT_setPrimary_inv
      TC_assign_inv TC_assignToClass_inv TC_updateStatus_inv TC_remove_inv
      CS_assign_inv CS_remove_inv CS_updateStatus_inv CS_setPrimary_inv)

lemma run_inv: "primaryInv d \<Longrightarrow> primaryInv (run hp xs d)"
  by (induction xs arbitrary: d) (simp_all add: exec_inv)

lemma length_filter_conj_le:
  "length (filter (\<lambda>x. P x \<and> Q x) xs) \<le> length (filter P xs)"
  by (induction xs) simp_all

section \<open>Designating a primary campus twice\<close>

lemma select_unsetPrimary:
  "selectByPair p c (unsetPrimary q rows) = unsetPrimary q (selectByPair p c rows)"
  unfolding selectByPair_def unsetPrimary_def by (induction rows) simp_all

lemma select_setPrimaryWhere:
  "selectByPair p c (setPrimaryWhere q e rows) = setPrimaryWhere q e (selectByPair p c rows)"
  unfolding selectByPair_def setPrimaryWhere_def by (induction rows) simp_all

lemma rowIds_unsetPrimary [simp]: "map rowId (unsetPrimary p rows) = map rowId rows"
  unfolding unsetPrimary_def by (rule map_map_pointwise) auto

lemma select_unsetPrimary_empty:
  "selectByPair p c (unsetPrimary q rows) = [] \<longleftrightarrow> selectByPair p c rows = []"
  unfolding select_unsetPrimary by (simp add: unsetPrimary_def)

lemma unsetPrimary_idem: "unsetPrimary p (unsetPrimary p rows) = unsetPrimary p rows"
  unfolding unsetPrimary_def by (induction rows) simp_all

lemma unset_set_unset:
  "unsetPrimary p (setPrimaryWhere p c (unsetPrimary p rows)) = unsetPrimary p rows"
  unfolding unsetPrimary_def setPrimaryWhere_def by (induction rows) simp_all

lemma designate_twice:
  "setPrimaryWhere p c (unsetPrimary p (setPrimaryWhere p c (unsetPrimary p rows)))
     = setPrimaryWhere p c (unsetPrimary p rows)"
  by (simp add: unset_set_unset)

lemma select_designate:
  "selectByPair p c (setPrimaryWhere p c (unsetPrimary p rows))
     = map (\<lambda>r. r\<lparr>isPrimary := True\<rparr>) (selectByPair p c rows)"
  unfolding selectByPair_def unsetPrimary_def setPrimaryWhere_def by (induction rows) simp_all

lemma select_unset_same:
  "selectByPair p c (unsetPrimary p rows)
     = map (\<lambda>r. r\<lparr>isPrimary := False\<rparr>) (selectByPair p c rows)"
  unfolding selectByPair_def unsetPrimary_def by (induction rows) simp_all

lemma CT_setPrimary_twice:
  "CampusTeacherService_setPrimaryCampus u t c (snd (CampusTeacherService_setPrimaryCampus u t c d))
     = CampusTeacherService_setPrimaryCampus u t c d"
proof (cases "selectByPair t c (TeacherCampus d)")
  case Nil
  then show ?thesis by (simp add: CampusTeacherService_setPrimaryCampus_def)
next
  case (Cons r0 rest)
  define d2 where "d2 = d\<lparr>TeacherCampus := setPrimaryWhere t c (unsetPrimary t (TeacherCampus d))\<rparr>"
  have once: "snd (CampusTeacherService_setPrimaryCampus u t c d) = d2"
    using Cons by (simp add: CampusTeacherService_setPrimaryCampus_def Let_def d2_def)
  have sel: "selectByPair t c (TeacherCampus d2) = r0\<lparr>isPrimary := True\<rparr> # map (\<lambda>r. r\<lparr>isPrimary := True\<rparr>) rest"
    using Cons by (simp add: d2_def select_designate)
  have again: "d2\<lparr>TeacherCampus := setPrimaryWhere t c (unsetPrimary t (TeacherCampus d2))\<rparr> = d2"
    by (simp add: d2_def unset_set_unset)
  have "CampusTeacherService_setPrimaryCampus u t c d2 = CampusTeacherService_setPrimaryCampus u t c d"
    unfolding CampusTeacherService_setPrimaryCampus_def Let_def
    using sel Cons again by (simp add: d2_def unset_set_unset)
  then show ?thesis using once by simp
qed

lemma CS_setPrimary_twice:
  "CampusStudentService_setPrimaryCampus hp u s c
      (snd (CampusStudentService_setPrimaryCampus hp u s c d))
     = CampusStudentService_setPrimaryCampus hp u s c d"
proof (cases "hp u c MANAGE_CAMPUS_STUDENTS")
  case False
  then show ?thesis by (simp add: CampusStudentService_setPrimaryCampus_def)
next
  case True
  show ?thesis
  proof (cases "selectByPair s c (StudentCampus d)")
    case Nil
    then show ?thesis
      using True
      by (simp add: CampusStudentService_setPrimaryCampus_def Let_def select_unset_same
          unsetPrimary_idem)
  next
    case (Cons r0 rest)
    define d2 where "d2 = d\<lparr>StudentCampus := setPrimaryWhere s c (unsetPrimary s (StudentCampus d))\<rparr>"
    have once: "snd (CampusStudentService_setPrimaryCampus hp u s c d) = d2"
      using Cons True
      by (simp add: CampusStudentService_setPrimaryCampus_def Let_def d2_def select_unset_same)
    have sel: "selectByPair s c (unsetPrimary s (StudentCampus d2))
                 = r0\<lparr>isPrimary := False\<rparr> # map (\<lambda>r. r\<lparr>isPrimary := False\<rparr>) rest"
      using Cons by (simp add: d2_def unset_set_unset select_unset_same)
    have "CampusStudentService_setPrimaryCampus hp u s c d2
            = CampusStudentService_setPrimaryCampus hp u s c d"
      unfolding CampusStudentService_setPrimaryCampus_def Let_def
      using sel Cons True by (simp add: d2_def unset_set_unset select_unset_same)
    then show ?thesis using once by simp
  qed
qed

section \<open>Operations other than a status update keep the status of every row\<close>

lemma keepsStatus_refl: "keepsStatus n rows rows"
  by (auto simp: keepsStatus_def)

lemma keepsStatus_trans:
  "keepsStatus n a b \<Longrightarrow> keepsStatus n b c \<Longrightarrow> keepsStatus n a c"
  unfolding keepsStatus_def by (metis (no_types, lifting))

lemma keepsStatus_filter: "keepsStatus n rows (filter P rows)"
  by (auto simp: keepsStatus_def)

lemma keepsStatus_unsetPrimary: "keepsStatus n rows (unsetPrimary p rows)"
  unfolding keepsStatus_def unsetPrimary_def by (induction rows) auto

lemma keepsStatus_setPrimaryWhere: "keepsStatus n rows (setPrimaryWhere p c rows)"
  unfolding keepsStatus_def setPrimaryWhere_def by (induction rows) auto

lemma keepsStatus_designate: "keepsStatus n rows (setPrimaryWhere p c (unsetPrimary p rows))"
  using keepsStatus_trans[OF keepsStatus_unsetPrimary keepsStatus_setPrimaryWhere] .

lemma keepsStatus_insert:
  assumes "insertCampusRow ps cs r (if b then unsetPrimary p rows else rows) = Some rows'"
    and "rowId r = n"
  shows "keepsStatus n rows rows'"
proof -
  have eq: "rows' = (if b then unsetPrimary p rows else rows) @ [r]"
    using assms(1) by (auto simp: insertCampusRow_def split: if_splits)
  have "keepsStatus n rows (if b then unsetPrimary p rows else rows)"
    by (simp add: keepsStatus_refl keepsStatus_unsetPrimary)
  then show ?thesis
    unfolding eq using assms(2) by (auto simp: keepsStatus_def)
qed

lemma insert_TeacherCampus_keeps:
  assumes "insert_TeacherCampus gen_random_uuid t c p s
           (if p then d\<lparr>TeacherCampus := unsetPrimary t (TeacherCampus d)\<rparr> else d) = Some (r, d')"
  shows "keepsStatus (nextId d) (TeacherCampus d) (TeacherCampus d') \<and> StudentCampus d' = StudentCampus d"
proof -
  let ?r = "\<lparr>rowId = nextId d, personId = t, campusId = c, isPrimary = p, status = s\<rparr>"
  obtain rows' where
    i: "insertCampusRow (teacherProfile d) (campus d) ?r
          (if p then unsetPrimary t (TeacherCampus d) else TeacherCampus d) = Some rows'"
    and d': "TeacherCampus d' = rows'" "StudentCampus d' = StudentCampus d"
    using assms by (cases p) (auto simp: insert_TeacherCampus_def Let_def split: option.splits)
  show ?thesis
    using keepsStatus_insert[OF i] d' by simp
qed

lemma insert_StudentCampus_keeps:
  assumes "insert_StudentCampus t c p s
           (if p then d\<lparr>StudentCampus := unsetPrimary t (StudentCampus d)\<rparr> else d) = Some (r, d')"
  shows "keepsStatus (nextId d) (StudentCampus d) (StudentCampus d') \<and> TeacherCampus d' = TeacherCampus d"
proof -
  let ?r = "\<lparr>rowId = nextId d, personId = t, campusId = c, isPrimary = p, status = s\<rparr>"
  obtain rows' where
    i: "insertCampusRow (student d) (campus d) ?r
          (if p then unsetPrimary t (StudentCampus d) else StudentCampus d) = Some rows'"
    and d': "StudentCampus d' = rows'" "TeacherCampus d' = TeacherCampus d"
    using assms by (cases p) (auto simp: insert_StudentCampus_def Let_def split: option.splits)
  show ?thesis
    using keepsStatus_insert[OF i] d' by simp
qed

lemma CT_assign_keeps:
  "keeps d (snd (CampusTeacherService_assignTeacherToCampus hp u c t p d))"
  by (simp add: CT_assign_throws keeps_def keepsStatus_refl keepsStatus_unsetPrimary)

lemma TC_assign_keeps:
  "keeps d (snd (TeacherCampusService_assignTeacherToCampus t c p st d))"
proof -
  define s where "s = (case st of None \<Rightarrow> ACTIVE | Some s' \<Rightarrow> s')"
  show ?thesis
  proof (cases "insert_TeacherCampus gen_random_uuid t c p s
           (if p then d\<lparr>TeacherCampus := unsetPrimary t (TeacherCampus d)\<rparr> else d)")
    case None
    then show ?thesis
      by (simp add: TeacherCampusService_assignTeacherToCampus_def Let_def keeps_def s_def
          keepsStatus_refl keepsStatus_unsetPrimary)
  next
    case (Some a)
    obtain r d' where a: "a = (r, d')" by (cases a)
    show ?thesis
      using insert_TeacherCampus_keeps[OF Some[unfolded a]] Some a
      by (simp add: TeacherCampusService_assignTeacherToCampus_def Let_def keeps_def s_def
          keepsStatus_refl)
  qed
qed

lemma CS_assign_keeps:
  "keeps d (snd (CampusStudentService_assignStudentToCampus hp u c t p d))"
proof (cases "insert_StudentCampus t c p ACTIVE
           (if p then d\<lparr>StudentCampus := unsetPrimary t (StudentCampus d)\<rparr> else d)")
  case None
  then show ?thesis
    by (simp add: CampusStudentService_assignStudentToCampus_def Let_def keeps_def
        keepsStatus_refl keepsStatus_unsetPrimary)
next
  case (Some a)
  obtain r d' where a: "a = (r, d')" by (cases a)
  show ?thesis
    using insert_StudentCampus_keeps[OF Some[unfolded a]] Some a
    by (simp add: CampusStudentService_assignStudentToCampus_def Let_def keeps_def keepsStatus_refl)
qed

lemma other_keeps:
  "keeps d (snd (CampusTeacherService_removeTeacherFromCampus hp u c t d))"
  "keeps d (snd (TeacherCampusService_removeTeacherFromCampus t c d))"
  "keeps d (snd (CampusStudentService_removeStudentFromCampus hp u c t d))"
  "keeps d (snd (CampusTeacherService_setPrimaryCampus u t c d))"
  "keeps d (snd (CampusStudentService_setPrimaryCampus hp u t c d))"
  "keeps d (snd (TeacherCampusService_assignTeacherToClass tc cl ict sjs d))"
  by (simp_all add: keeps_def keepsStatus_refl keepsStatus_filter keepsStatus_designate
      keepsStatus_unsetPrimary assignTeacherToClass_tables
      CampusTeacherService_removeTeacherFromCampus_def
      TeacherCampusService_removeTeacherFromCampus_def
      CampusStudentService_removeStudentFromCampus_def
      CampusTeacherService_setPrimaryCampus_def
      CampusStudentService_setPrimaryCampus_def Let_def split: list.splits)

lemma exec_keeps: "\<not> isStatusUpdate x \<Longrightarrow> keeps d (exec hp x d)"
  by (cases x) (simp_all add: CT_assign_keeps TC_assign_keeps CS_assign_keeps other_keeps)

lemma setStatusById_mem:
  "r \<in> set rows \<Longrightarrow> rowId r = i \<Longrightarrow> r\<lparr>status := s\<rparr> \<in> set (setStatusById i s rows)"
  unfolding setStatusById_def by (induction rows) auto

lemma setStatusWhere_mem:
  "r \<in> set rows \<Longrightarrow> personId r = p \<Longrightarrow> campusId r = c \<Longrightarrow>
   r\<lparr>status := s\<rparr> \<in> set (setStatusWhere p c s rows)"
  unfolding setStatusWhere_def by (induction rows) auto

lemma select_nonempty: "r \<in> set rows \<Longrightarrow> personId r = p \<Longrightarrow> campusId r = c \<Longrightarrow>
  selectByPair p c rows \<noteq> []"
  by (auto simp: selectByPair_def filter_empty_conv)

section \<open>Designating a primary campus clears every other primary flag\<close>

lemma unsetPrimary_clears:
  "\<forall>r \<in> set (unsetPrimary p rows). personId r = p \<longrightarrow> \<not> isPrimary r"
proof (intro ballI impI)
  fix r
  assume "r \<in> set (unsetPrimary p rows)" and p: "personId r = p"
  then obtain x where "r = (if personId x = p \<and> isPrimary x then x\<lparr>isPrimary := False\<rparr> else x)"
    unfolding unsetPrimary_def set_map by blast
  then show "\<not> isPrimary r"
    using p by (cases "personId x = p \<and> isPrimary x") auto
qed

lemma primaryCount_only_at:
  assumes "\<forall>r \<in> set rows. personId r = p \<longrightarrow> (isPrimary r \<longleftrightarrow> campusId r = c)"
  shows "primaryCount p rows = length (selectByPair p c rows)"
proof -
  have "filter (\<lambda>r. personId r = p \<and> isPrimary r) rows = filter (\<lambda>r. personId r = p \<and> campusId r = c) rows"
    using assms by (intro filter_cong) auto
  then show ?thesis by (simp add: primaryCount_def selectByPair_def)
qed

lemma solePrimaryAt_I:
  assumes "\<forall>r \<in> set rows. personId r = p \<longrightarrow> (isPrimary r \<longleftrightarrow> campusId r = c)"
    and "uniquePairs rows"
  shows "solePrimaryAt p c rows"
  using assms primaryCount_only_at[OF assms(1)] uniquePairs_select[OF assms(2), of p c]
  by (simp add: solePrimaryAt_def)

lemma designate_only_at:
  "\<forall>r \<in> set (setPrimaryWhere p c (unsetPrimary p rows)).
      personId r = p \<longrightarrow> (isPrimary r \<longleftrightarrow> campusId r = c)"
proof (intro ballI impI)
  fix r
  assume "r \<in> set (setPrimaryWhere p c (unsetPrimary p rows))" and p: "personId r = p"
  then obtain y where y: "y \<in> set (unsetPrimary p rows)"
    and r: "r = (if personId y = p \<and> campusId y = c then y\<lparr>isPrimary := True\<rparr> else y)"
    unfolding setPrimaryWhere_def set_map by blast
  show "isPrimary r \<longleftrightarrow> campusId r = c"
  proof (cases "personId y = p \<and> campusId y = c")
    case True
    then show ?thesis using r by simp
  next
    case False
    then have "r = y" using r by auto
    then show ?thesis using False p y unsetPrimary_clears[of p rows] by blast
  qed
qed


lemma solePrimaryAt_designate:
  "uniquePairs rows \<Longrightarrow> solePrimaryAt p c (setPrimaryWhere p c (unsetPrimary p rows))"
  by (rule solePrimaryAt_I[OF designate_only_at]) (simp add: uniquePairs_def)

lemma solePrimaryAt_insert:
  assumes "uniquePairs rows"
    and "insertCampusRow ps cs r (unsetPrimary (personId r) rows) = Some rows'"
    and "isPrimary r"
  shows "solePrimaryAt (personId r) (campusId r) rows'"
proof -
  let ?rows1 = "unsetPrimary (personId r) rows"
  have eq: "rows' = ?rows1 @ [r]" and none: "selectByPair (personId r) (campusId r) ?rows1 = []"
    using assms(2) by (simp_all add: insertCampusRow_def split: if_splits)
  have a: "\<forall>x \<in> set ?rows1. \<not> (personId x = personId r \<and> campusId x = campusId r)"
    using none unfolding selectByPair_def filter_empty_conv .
  have only: "\<forall>x \<in> set rows'. personId x = personId r \<longrightarrow> (isPrimary x \<longleftrightarrow> campusId x = campusId r)"
  proof (intro ballI impI)
    fix x
    assume x: "x \<in> set rows'" and p: "personId x = personId r"
    show "isPrimary x \<longleftrightarrow> campusId x = campusId r"
    proof (cases "x \<in> set ?rows1")
      case True
      then show ?thesis
        using a p unsetPrimary_clears[of "personId r" rows] by blast
    next
      case False
      then have "x = r" using x eq by simp
      then show ?thesis using assms(3) by simp
    qed
  qed
  have "(personId r, campusId r) \<notin> (\<lambda>r. (personId r, campusId r)) ` set ?rows1"
  proof
    assume "(personId r, campusId r) \<in> (\<lambda>r. (personId r, campusId r)) ` set ?rows1"
    then obtain x where "x \<in> set ?rows1" and "(personId r, campusId r) = (personId x, campusId x)"
      by blast
    then show False using a by auto
  qed
  then have "(personId r, campusId r) \<notin> set (map (\<lambda>r. (personId r, campusId r)) rows)"
    using pairs_unsetPrimary[of "personId r" rows] by (metis set_map)
  then have "distinct (map (\<lambda>r. (personId r, campusId r)) (?rows1 @ [r]))"
    using assms(1) by (simp add: uniquePairs_def)
  then have u: "uniquePairs rows'"
    by (simp add: eq uniquePairs_def)
  show ?thesis
    by (rule solePrimaryAt_I[OF only u])
qed

lemma TC_assign_sole:
  assumes "uniquePairs (TeacherCampus d)"
    and "fst (TeacherCampusService_assignTeacherToCampus t c True st d) = Inr a"
  shows "solePrimaryAt t c (TeacherCampus (snd (TeacherCampusService_assignTeacherToCampus t c True st d)))"
proof -
  define s where "s = (case st of None \<Rightarrow> ACTIVE | Some s' \<Rightarrow> s')"
  let ?d1 = "d\<lparr>TeacherCampus := unsetPrimary t (TeacherCampus d)\<rparr>"
  let ?r = "\<lparr>rowId = nextId d, personId = t, campusId = c, isPrimary = True, status = s\<rparr>"
  obtain r d2 where i: "insert_TeacherCampus gen_random_uuid t c True s ?d1 = Some (r, d2)"
    and s: "snd (TeacherCampusService_assignTeacherToCampus t c True st d) = d2"
    using assms(2)
    by (auto simp: TeacherCampusService_assignTeacherToCampus_def Let_def s_def
        split: if_splits option.splits)
  obtain rows' where
    "insertCampusRow (teacherProfile d) (campus d) ?r (unsetPrimary (personId ?r) (TeacherCampus d)) = Some rows'"
    and "TeacherCampus d2 = rows'"
    using i by (auto simp: insert_TeacherCampus_def Let_def split: option.splits)
  then show ?thesis
    using solePrimaryAt_insert[OF assms(1), of "teacherProfile d" "campus d" ?r rows'] s by simp
qed

lemma CS_assign_sole:
  assumes "uniquePairs (StudentCampus d)"
    and "fst (CampusStudentService_assignStudentToCampus hp u c t True d) = Inr a"
  shows "solePrimaryAt t c (StudentCampus (snd (CampusStudentService_assignStudentToCampus hp u c t True d)))"
proof -
  let ?d1 = "d\<lparr>StudentCampus := unsetPrimary t (StudentCampus d)\<rparr>"
  let ?r = "\<lparr>rowId = nextId d, personId = t, campusId = c, isPrimary = True, status = ACTIVE\<rparr>"
  obtain r d2 where i: "insert_StudentCampus t c True ACTIVE ?d1 = Some (r, d2)"
    and s: "snd (CampusStudentService_assignStudentToCampus hp u c t True d) = d2"
    using assms(2)
    by (auto simp: CampusStudentService_assignStudentToCampus_def Let_def
        split: if_splits option.splits)
  obtain rows' where
    "insertCampusRow (student d) (campus d) ?r (unsetPrimary (personId ?r) (StudentCampus d)) = Some rows'"
    and "StudentCampus d2 = rows'"
    using i by (auto simp: insert_StudentCampus_def Let_def split: option.splits)
  then show ?thesis
    using solePrimaryAt_insert[OF assms(1), of "student d" "campus d" ?r rows'] s by simp
qed

lemma CT_setPrimary_sole:
  assumes "uniquePairs (TeacherCampus d)"
    and "fst (CampusTeacherService_setPrimaryCampus u t c d) = Inr a"
  shows "solePrimaryAt t c (TeacherCampus (snd (CampusTeacherService_setPrimaryCampus u t c d)))"
  using assms
  by (auto simp: CampusTeacherService_setPrimaryCampus_def Let_def solePrimaryAt_designate
      split: list.splits if_splits)

lemma CS_setPrimary_sole:
  assumes "uniquePairs (StudentCampus d)"
    and "fst (CampusStudentService_setPrimaryCampus hp u t c d) = Inr a"
  shows "solePrimaryAt t c (StudentCampus (snd (CampusStudentService_setPrimaryCampus hp u t c d)))"
  using assms
  by (auto simp: CampusStudentService_setPrimaryCampus_def Let_def solePrimaryAt_designate
      split: list.splits if_splits)

section \<open>What a removal leaves\<close>

lemma CT_remove_removedFrom:
  assumes "CampusTeacherService_removeTeacherFromCampus hp u c t d = (Inr Success, d')"
  shows "removedFrom t c d d'"
proof -
  have "d' = delete_TeacherCampus (\<lambda>r. personId r = t \<and> campusId r = c) d"
    using assms
    by (simp add: CampusTeacherService_removeTeacherFromCampus_def split: if_splits)
  then show ?thesis
    by (simp add: removedFrom_def selectByPair_def)
qed

lemma CT_remove_success:
  "fst (CampusTeacherService_removeTeacherFromCampus hp u c t d) = Inr Success
     \<longleftrightarrow> hp u c MANAGE_CAMPUS_TEACHERS \<and> selectByPair t c (TeacherCampus d) \<noteq> []"
  by (simp add: CampusTeacherService_removeTeacherFromCampus_def)

lemma TC_remove_success:
  "fst (TeacherCampusService_removeTeacherFromCampus t c d) = Inr Success
     \<longleftrightarrow> selectByPair t c (TeacherCampus d) \<noteq> []"
  by (simp add: TeacherCampusService_removeTeacherFromCampus_def Let_def split: list.splits)

lemma CT_remove_failure:
  "fst (CampusTeacherService_removeTeacherFromCampus hp u c t d) \<noteq> Inr Success
     \<Longrightarrow> snd (CampusTeacherService_removeTeacherFromCampus hp u c t d) = d"
  by (simp add: CampusTeacherService_removeTeacherFromCampus_def split: if_splits)

lemma TC_remove_failure:
  "fst (TeacherCampusService_removeTeacherFromCampus t c d) \<noteq> Inr Success
     \<Longrightarrow> snd (TeacherCampusService_removeTeacherFromCampus t c d) = d"
  by (simp add: TeacherCampusService_removeTeacherFromCampus_def Let_def split: list.splits)

lemma distinct_map_eq:
  "distinct (map f xs) \<Longrightarrow> x \<in> set xs \<Longrightarrow> y \<in> set xs \<Longrightarrow> f x = f y \<Longrightarrow> x = y"
  by (meson distinct_map inj_onD)

lemma TC_remove_removedFrom:
  assumes ids: "distinct (map rowId (TeacherCampus d))"
    and pairs: "uniquePairs (TeacherCampus d)"
    and r: "TeacherCampusService_removeTeacherFromCampus t c d = (Inr Success, d')"
  shows "removedFrom t c d d'"
proof -
  obtain a rest where sel: "selectByPair t c (TeacherCampus d) = a # rest"
    using r by (cases "selectByPair t c (TeacherCampus d)")
      (simp_all add: TeacherCampusService_removeTeacherFromCampus_def)
  have "length (selectByPair t c (TeacherCampus d)) \<le> 1"
    by (rule uniquePairs_select[OF pairs])
  then have rest: "rest = []" using sel by simp
  have "a \<in> set (selectByPair t c (TeacherCampus d))"
    using sel by simp
  then have a_in: "a \<in> set (TeacherCampus d)" and a_pair: "personId a = t \<and> campusId a = c"
    by (simp_all add: selectByPair_def)
  have same: "(rowId x = rowId a) = (personId x = t \<and> campusId x = c)" if "x \<in> set (TeacherCampus d)" for x
  proof
    assume "rowId x = rowId a"
    then have "x = a" using distinct_map_eq[OF ids that a_in] by simp
    then show "personId x = t \<and> campusId x = c" using a_pair by simp
  next
    assume "personId x = t \<and> campusId x = c"
    then have "x \<in> set (selectByPair t c (TeacherCampus d))"
      using that by (simp add: selectByPair_def)
    then show "rowId x = rowId a" using sel rest by simp
  qed
  have f1: "filter (\<lambda>r. rowId r = rowId a) (TeacherCampus d) = selectByPair t c (TeacherCampus d)"
    unfolding selectByPair_def using same by (intro filter_cong) auto
  have f2: "filter (\<lambda>r. rowId r \<noteq> rowId a) (TeacherCampus d)
              = filter (\<lambda>r. \<not> (personId r = t \<and> campusId r = c)) (TeacherCampus d)"
    using same by (intro filter_cong) auto
  have gone: "rowId ` set (selectByPair t c (TeacherCampus d)) = {rowId a}"
    using sel rest by simp
  define d1 where "d1 = delete_TeacherSubjectAssignment
                     (\<lambda>sa. teacherClassAssignmentId sa \<in>
                        set (map classRowId
                          (filter (\<lambda>ca. teacherCampusId ca = rowId a)
                             (TeacherClassAssignment d)))) d"
  define d2 where "d2 = delete_TeacherClassAssignment (\<lambda>ca. teacherCampusId ca = rowId a) d1"
  have d': "d' = delete_TeacherCampus (\<lambda>r. rowId r = rowId a) d2"
    using r sel by (simp add: TeacherCampusService_removeTeacherFromCampus_def Let_def d1_def d2_def)
  have tc: "TeacherCampus d' = filter (\<lambda>r. \<not> (personId r = t \<and> campusId r = c)) (TeacherCampus d)"
    by (simp add: d' d2_def d1_def f2)
  have ca: "TeacherClassAssignment d' =
            filter (\<lambda>ca. teacherCampusId ca \<noteq> rowId a) (TeacherClassAssignment d)"
    by (simp add: d' d2_def d1_def f1 gone)
  have sa: "TeacherSubjectAssignment d' =
            filter (\<lambda>sa. teacherClassAssignmentId sa \<notin> set (map classRowId
                (filter (\<lambda>ca. teacherCampusId ca = rowId a) (TeacherClassAssignment d))))
              (TeacherSubjectAssignment d)"
    by (simp add: d' d2_def d1_def f1 gone)
  have sc: "StudentCampus d' = StudentCampus d"
    by (simp add: d' d2_def d1_def)
  show ?thesis
    unfolding removedFrom_def Let_def using tc ca sa sc by (simp add: gone)
qed

lemma removedFrom_noOrphans:
  assumes "removedFrom t c d d'" and "noOrphans d"
  shows "noOrphans d'"
proof -
  let ?gone = "set (map rowId (selectByPair t c (TeacherCampus d)))"
  let ?goneClasses = "set (map classRowId
             (filter (\<lambda>ca. teacherCampusId ca \<in> ?gone) (TeacherClassAssignment d)))"
  have tc: "TeacherCampus d' = filter (\<lambda>r. \<not> (personId r = t \<and> campusId r = c)) (TeacherCampus d)"
    and ca: "TeacherClassAssignment d' =
            filter (\<lambda>ca. teacherCampusId ca \<notin> ?gone) (TeacherClassAssignment d)"
    and sa: "TeacherSubjectAssignment d' =
            filter (\<lambda>sa. teacherClassAssignmentId sa \<notin> ?goneClasses) (TeacherSubjectAssignment d)"
    using assms(1) by (simp_all add: removedFrom_def Let_def)
  have 1: "teacherCampusId x \<in> set (map rowId (TeacherCampus d'))"
    if "x \<in> set (TeacherClassAssignment d')" for x
  proof -
    have x: "x \<in> set (TeacherClassAssignment d)" "teacherCampusId x \<notin> ?gone"
      using that ca by simp_all
    then obtain r where r: "r \<in> set (TeacherCampus d)" "rowId r = teacherCampusId x"
      using assms(2) unfolding noOrphans_def by auto
    have "\<not> (personId r = t \<and> campusId r = c)"
    proof
      assume "personId r = t \<and> campusId r = c"
      then have "r \<in> set (selectByPair t c (TeacherCampus d))"
        using r(1) by (simp add: selectByPair_def)
      then show False using x(2) r(2) by force
    qed
    then have "r \<in> set (TeacherCampus d')" using r(1) tc by simp
    then show ?thesis using r(2) by force
  qed
  have 2: "teacherClassAssignmentId y \<in> set (map classRowId (TeacherClassAssignment d'))"
    if "y \<in> set (TeacherSubjectAssignment d')" for y
  proof -
    have y: "y \<in> set (TeacherSubjectAssignment d)" "teacherClassAssignmentId y \<notin> ?goneClasses"
      using that sa by simp_all
    then obtain x where x: "x \<in> set (TeacherClassAssignment d)" "classRowId x = teacherClassAssignmentId y"
      using assms(2) unfolding noOrphans_def by auto
    have "teacherCampusId x \<notin> ?gone"
    proof
      assume "teacherCampusId x \<in> ?gone"
      then have "x \<in> set (filter (\<lambda>ca. teacherCampusId ca \<in> ?gone) (TeacherClassAssignment d))"
        using x(1) by simp
      then show False using y(2) x(2) by force
    qed
    then have "x \<in> set (TeacherClassAssignment d')" using x(1) ca by simp
    then show ?thesis using x(2) by force
  qed
  show ?thesis
    unfolding noOrphans_def using 1 2 by blast
qed

section \<open>Each operation keeps the cross-campus invariant\<close>
























section \<open>The loop over the subject ids\<close>

lemma insert_subject_Some:
  assumes "insert_TeacherSubjectAssignment n sj s d = Some d'"
  shows "TeacherSubjectAssignment d' = TeacherSubjectAssignment d
            @ [\<lparr>subjectRowId = nextId d, teacherClassAssignmentId = n, subjectId = sj, subjectStatus = s\<rparr>]"
    and "nextId d' = Suc (nextId d)" and "subject d' = subject d"
    and "TeacherClassAssignment d' = TeacherClassAssignment d"
  using assms by (simp_all add: insert_TeacherSubjectAssignment_def Let_def split: if_splits) auto

lemma insertSubjects_clash:
  "\<exists>sa \<in> set (TeacherSubjectAssignment d). teacherClassAssignmentId sa = n \<and> subjectId sa \<in> set sjs
   \<Longrightarrow> \<not> fst (insertSubjects n sjs d)"
proof (induction sjs arbitrary: d)
  case Nil
  then show ?case by simp
next
  case (Cons sj sjs)
  show ?case
  proof (cases "insert_TeacherSubjectAssignment n sj ACTIVE d")
    case None
    then show ?thesis by simp
  next
    case (Some d')
    obtain sa where sa: "sa \<in> set (TeacherSubjectAssignment d)" "teacherClassAssignmentId sa = n"
        "subjectId sa \<in> set (sj # sjs)"
      using Cons.prems by blast
    have "filter (\<lambda>x. teacherClassAssignmentId x = n \<and> subjectId x = sj) (TeacherSubjectAssignment d) = []"
      using Some by (simp add: insert_TeacherSubjectAssignment_def Let_def split: if_splits)
    then have "subjectId sa \<noteq> sj"
      using sa(1,2) by (auto simp: filter_empty_conv)
    then have "subjectId sa \<in> set sjs" using sa(3) by simp
    moreover have "sa \<in> set (TeacherSubjectAssignment d')"
      using insert_subject_Some(1)[OF Some] sa(1) by simp
    ultimately have "\<not> fst (insertSubjects n sjs d')"
      using Cons.IH[of d'] sa(2) by blast
    then show ?thesis using Some by simp
  qed
qed

lemma insertSubjects_duplicate:
  "\<not> distinct sjs \<Longrightarrow> \<not> fst (insertSubjects n sjs d)"
proof (induction sjs arbitrary: d)
  case Nil
  then show ?case by simp
next
  case (Cons sj sjs)
  show ?case
  proof (cases "insert_TeacherSubjectAssignment n sj ACTIVE d")
    case None
    then show ?thesis by simp
  next
    case (Some d')
    let ?r = "\<lparr>subjectRowId = nextId d, teacherClassAssignmentId = n, subjectId = sj,
               subjectStatus = ACTIVE\<rparr>"
    have in': "?r \<in> set (TeacherSubjectAssignment d')"
      using insert_subject_Some(1)[OF Some] by simp
    have "\<not> fst (insertSubjects n sjs d')"
    proof (cases "sj \<in> set sjs")
      case True
      then have "\<exists>sa \<in> set (TeacherSubjectAssignment d').
                   teacherClassAssignmentId sa = n \<and> subjectId sa \<in> set sjs"
        using in' by (intro bexI[of _ ?r]) simp_all
      then show ?thesis by (rule insertSubjects_clash)
    next
      case False
      then have "\<not> distinct sjs" using Cons.prems by simp
      then show ?thesis by (rule Cons.IH)
    qed
    then show ?thesis using Some by simp
  qed
qed

lemma insertSubjects_keys:
  "fst (insertSubjects n sjs d) \<Longrightarrow>
   map subjectKey (TeacherSubjectAssignment (snd (insertSubjects n sjs d)))
     = map subjectKey (TeacherSubjectAssignment d) @ map (Pair n) sjs"
proof (induction sjs arbitrary: d)
  case Nil
  then show ?case by simp
next
  case (Cons sj sjs)
  show ?case
  proof (cases "insert_TeacherSubjectAssignment n sj ACTIVE d")
    case None
    then show ?thesis using Cons.prems by simp
  next
    case (Some d')
    have "fst (insertSubjects n sjs d')" using Cons.prems Some by simp
    then have "map subjectKey (TeacherSubjectAssignment (snd (insertSubjects n sjs d')))
     = map subjectKey (TeacherSubjectAssignment d') @ map (Pair n) sjs"
      by (rule Cons.IH)
    moreover have "subjectKey \<lparr>subjectRowId = nextId d, teacherClassAssignmentId = n,
                     subjectId = sj, subjectStatus = ACTIVE\<rparr> = (n, sj)"
      by (simp add: subjectKey_def)
    ultimately show ?thesis
      using Some insert_subject_Some(1)[OF Some] by simp
  qed
qed

lemma insertSubjects_succeeds:
  assumes "n \<in> set (map classRowId (TeacherClassAssignment d))"
    and "\<forall>sa \<in> set (TeacherSubjectAssignment d). subjectRowId sa < nextId d"
    and "\<forall>sa \<in> set (TeacherSubjectAssignment d). teacherClassAssignmentId sa = n \<longrightarrow> subjectId sa \<notin> set sjs"
    and "distinct sjs" and "set sjs \<subseteq> set (subject d)"
  shows "fst (insertSubjects n sjs d)"
  using assms
proof (induction sjs arbitrary: d)
  case Nil
  then show ?case by simp
next
  case (Cons sj sjs)
  let ?r = "\<lparr>subjectRowId = nextId d, teacherClassAssignmentId = n, subjectId = sj,
             subjectStatus = ACTIVE\<rparr>"
  let ?d' = "d\<lparr>TeacherSubjectAssignment := TeacherSubjectAssignment d @ [?r],
                nextId := Suc (nextId d)\<rparr>"
  have pk: "nextId d \<notin> set (map subjectRowId (TeacherSubjectAssignment d))"
    using Cons.prems(2) by auto
  have uq: "filter (\<lambda>sa. teacherClassAssignmentId sa = n \<and> subjectId sa = sj)
              (TeacherSubjectAssignment d) = []"
    using Cons.prems(3) by (auto simp: filter_empty_conv)
  have ins: "insert_TeacherSubjectAssignment n sj ACTIVE d = Some ?d'"
    using pk uq Cons.prems(1,5) by (simp add: insert_TeacherSubjectAssignment_def Let_def)
  have "fst (insertSubjects n sjs ?d')"
  proof (rule Cons.IH)
    show "n \<in> set (map classRowId (TeacherClassAssignment ?d'))" using Cons.prems(1) by simp
    show "\<forall>sa \<in> set (TeacherSubjectAssignment ?d'). subjectRowId sa < nextId ?d'"
      using Cons.prems(2) by (auto simp: less_Suc_eq)
    show "\<forall>sa \<in> set (TeacherSubjectAssignment ?d').
            teacherClassAssignmentId sa = n \<longrightarrow> subjectId sa \<notin> set sjs"
      using Cons.prems(3,4) by auto
    show "distinct sjs" using Cons.prems(4) by simp
    show "set sjs \<subseteq> set (subject ?d')" using Cons.prems(5) by simp
  qed
  then show ?case using ins by simp
qed

lemma assignTeacherToClass_unfold:
  assumes "filter (\<lambda>r. rowId r = tcId) (TeacherCampus d) = teacherCampus # rest"
    and "map_of (classes d) clId = Some (Some (campusId teacherCampus))"
    and "insert_TeacherClassAssignment tcId clId ict ACTIVE d = Some (ca, d1)"
    and "insertSubjects (classRowId ca) sjs d1 = (ok, d2)"
  shows "TeacherCampusService_assignTeacherToClass tcId clId ict sjs d
           = (if ok then Inr ca else Inl STORE_ERROR, d2)"
proof (cases sjs)
  case Nil
  then have "ok" "d2 = d1" using assms(4) by simp_all
  then show ?thesis
    using assms(1,2,3) Nil by (simp add: TeacherCampusService_assignTeacherToClass_def)
next
  case (Cons sj rest')
  then have "sjs \<noteq> []" by simp
  then show ?thesis
    using assms by (cases ok) (simp_all add: TeacherCampusService_assignTeacherToClass_def)
qed

lemma assignTeacherToClass_success:
  assumes "fst (TeacherCampusService_assignTeacherToClass tcId clId ict sjs d) = Inr ca"
  obtains d1 where "insert_TeacherClassAssignment tcId clId ict ACTIVE d = Some (ca, d1)"
    and "fst (insertSubjects (classRowId ca) sjs d1)"
    and "snd (TeacherCampusService_assignTeacherToClass tcId clId ict sjs d)
           = snd (insertSubjects (classRowId ca) sjs d1)"
proof (cases "filter (\<lambda>r. rowId r = tcId) (TeacherCampus d)")
  case Nil
  then show ?thesis using assms by (simp add: TeacherCampusService_assignTeacherToClass_def)
next
  case (Cons teacherCampus rest)
  show ?thesis
  proof (cases "map_of (classes d) clId")
    case None
    then show ?thesis using assms Cons by (simp add: TeacherCampusService_assignTeacherToClass_def)
  next
    case (Some cc)
    show ?thesis
    proof (cases "cc = Some (campusId teacherCampus)")
      case False
      then show ?thesis
        using assms Cons Some by (simp add: TeacherCampusService_assignTeacherToClass_def)
    next
      case True
      show ?thesis
      proof (cases "insert_TeacherClassAssignment tcId clId ict ACTIVE d")
        case None
        then show ?thesis
          using assms Cons Some True by (simp add: TeacherCampusService_assignTeacherToClass_def)
      next
        case ins: (Some a)
        obtain ca' d1 where a: "a = (ca', d1)" by (cases a)
        obtain ok d2 where loop: "insertSubjects (classRowId ca') sjs d1 = (ok, d2)"
          by (cases "insertSubjects (classRowId ca') sjs d1")
        have res: "TeacherCampusService_assignTeacherToClass tcId clId ict sjs d
              = (if ok then Inr ca' else Inl STORE_ERROR, d2)"
          using assignTeacherToClass_unfold[OF Cons Some[unfolded True] ins[unfolded a] loop] .
        have "ok"
        proof (rule ccontr)
          assume "\<not> ok"
          then show False using res assms by simp
        qed
        then have "ca' = ca" using res assms by simp
        have i: "insert_TeacherClassAssignment tcId clId ict ACTIVE d = Some (ca, d1)"
          using ins a \<open>ca' = ca\<close> by simp
        have l: "fst (insertSubjects (classRowId ca) sjs d1)"
          using loop \<open>ok\<close> \<open>ca' = ca\<close> by simp
        have r: "snd (TeacherCampusService_assignTeacherToClass tcId clId ict sjs d)
                   = snd (insertSubjects (classRowId ca) sjs d1)"
          using res loop \<open>ca' = ca\<close> by simp
        show ?thesis
          by (rule that[OF i l r])
      qed
    qed
  qed
qed

lemma subjects_of_keys:
  "map subjectId (filter (\<lambda>sa. teacherClassAssignmentId sa = n) xs)
     = map snd (filter (\<lambda>k. fst k = n) (map subjectKey xs))"
  by (induction xs) (simp_all add: subjectKey_def)

lemma filter_keys_new: "filter (\<lambda>k. fst k = n) (map (Pair n) sjs) = map (Pair n) sjs"
  by (induction sjs) simp_all

lemma filter_keys_old:
  "\<forall>sa \<in> set xs. teacherClassAssignmentId sa \<noteq> n \<Longrightarrow>
   filter (\<lambda>k. fst k = n) (map subjectKey xs) = []"
  by (induction xs) (simp_all add: subjectKey_def)

section \<open>The campus a class is checked against\<close>







section \<open>TeacherCampusService.assignTeacherToCampus asks for no permission\<close>

lemma TC_assign_succeeds:
  assumes "t \<in> set (teacherProfile d)" and "c \<in> set (campus d)"
    and "selectByPair t c (TeacherCampus d) = []"
    and "nextId d \<notin> set (map rowId (TeacherCampus d))"
  shows "TeacherCampusService_assignTeacherToCampus t c p st d
     = (Inr \<lparr>rowId = nextId d, personId = t, campusId = c, isPrimary = p,
              status = (case st of None \<Rightarrow> ACTIVE | Some s \<Rightarrow> s)\<rparr>,
        d\<lparr>TeacherCampus := (if p then unsetPrimary t (TeacherCampus d) else TeacherCampus d)
              @ [\<lparr>rowId = nextId d, personId = t, campusId = c, isPrimary = p,
                   status = (case st of None \<Rightarrow> ACTIVE | Some s \<Rightarrow> s)\<rparr>],
           nextId := Suc (nextId d)\<rparr>)"
proof -
  have r: "rowId ` set (unsetPrimary t (TeacherCampus d)) = rowId ` set (TeacherCampus d)"
    using rowIds_unsetPrimary[of t "TeacherCampus d"] by (metis set_map)
  show ?thesis
    using assms r
    by (cases p) (simp_all add: TeacherCampusService_assignTeacherToCampus_def
        insert_TeacherCampus_def insertCampusRow_def select_unsetPrimary_empty Let_def)
qed

lemma TC_assign_not_forbidden:
  "fst (TeacherCampusService_assignTeacherToCampus t c p st d) \<noteq> Inl FORBIDDEN"
  by (simp add: TeacherCampusService_assignTeacherToCampus_def Let_def split: option.splits)

section \<open>The example calls\<close>

lemma exampleCalls_teachers:
  "TeacherCampus (run examplePermission exampleCalls exampleStore)
     = [\<lparr>rowId = 1, personId = ''T1'', campusId = ''C1'', isPrimary = True, status = ACTIVE\<rparr>,
        \<lparr>rowId = 2, personId = ''T1'', campusId = ''C2'', isPrimary = False, status = ACTIVE\<rparr>,
        \<lparr>rowId = 3, personId = ''T2'', campusId = ''C1'', isPrimary = False, status = ACTIVE\<rparr>,
        \<lparr>rowId = 4, personId = ''T2'', campusId = ''C2'', isPrimary = False, status = INACTIVE\<rparr>,
        \<lparr>rowId = 9, personId = ''T2'', campusId = ''C3'', isPrimary = True, status = ACTIVE\<rparr>]"
  by (simp add: exampleCalls_def TeacherCampusService_assignTeacherToCampus_def
      CampusTeacherService_assignTeacherToCampus_def CampusTeacherService_setPrimaryCampus_def
      CampusTeacherService_updateTeacherCampusStatus_def
      CampusStudentService_assignStudentToCampus_def CampusStudentService_setPrimaryCampus_def
      example_defs)

lemma exampleCalls_students:
  "StudentCampus (run examplePermission exampleCalls exampleStore)
     = [\<lparr>rowId = 5, personId = ''P1'', campusId = ''C1'', isPrimary = True, status = ACTIVE\<rparr>,
        \<lparr>rowId = 10, personId = ''P1'', campusId = ''C2'', isPrimary = False, status = ACTIVE\<rparr>]"
  by (simp add: exampleCalls_def TeacherCampusService_assignTeacherToCampus_def
      CampusTeacherService_assignTeacherToCampus_def CampusTeacherService_setPrimaryCampus_def
      CampusTeacherService_updateTeacherCampusStatus_def
      CampusStudentService_assignStudentToCampus_def CampusStudentService_setPrimaryCampus_def
      example_defs)

section \<open>C1: at most one active primary assignment for each person\<close>

text \<open>
  Claim C1. Start from a store whose two assignment tables respect their unique index on
  (person, campus) and hold at most one primary row for each person, rows of every status
  counted. After any sequence of
  calls of the mutating operations of the three services, whether each call returned or
  threw, every person has at most one row that is both primary and \<open>ACTIVE\<close>, in the
  teacher table and in the student table. The sequence is arbitrary, so the bound holds in
  every state between two calls. A call of
  \<^verbatim>\<open>CampusTeacherService.assignTeacherToCampus\<close> in the sequence clears primary flags
  and throws at its \<^verbatim>\<open>INSERT\<close>: it sets no flag.
\<close>

theorem at_most_one_active_primary:
  assumes "uniquePairs (TeacherCampus d)" and "atMostOnePrimary (TeacherCampus d)"
    and "uniquePairs (StudentCampus d)" and "atMostOnePrimary (StudentCampus d)"
  shows "length (filter (\<lambda>r. personId r = p \<and> isPrimary r \<and> status r = ACTIVE)
                   (TeacherCampus (run hasPermission ops d))) \<le> 1
       \<and> length (filter (\<lambda>r. personId r = p \<and> isPrimary r \<and> status r = ACTIVE)
                   (StudentCampus (run hasPermission ops d))) \<le> 1"
proof -
  have "primaryInv d"
    using assms by (simp add: primaryInv_def tableInv_def)
  then have inv: "primaryInv (run hasPermission ops d)"
    by (rule run_inv)
  have t: "primaryCount p (TeacherCampus (run hasPermission ops d)) \<le> 1"
    and s: "primaryCount p (StudentCampus (run hasPermission ops d)) \<le> 1"
    using inv by (simp_all add: primaryInv_def tableInv_def atMostOnePrimary_count)
  have le: "length (filter (\<lambda>r. personId r = p \<and> isPrimary r \<and> status r = ACTIVE) rows)
              \<le> primaryCount p rows" for rows
    using length_filter_conj_le[of "\<lambda>r. personId r = p \<and> isPrimary r" "\<lambda>r. status r = ACTIVE" rows]
    by (simp add: primaryCount_def conj_assoc)
  show ?thesis
    using t s le[of "TeacherCampus (run hasPermission ops d)"]
      le[of "StudentCampus (run hasPermission ops d)"] by linarith
qed

theorem at_most_one_active_primary_witness:
  "uniquePairs (TeacherCampus exampleStore) \<and> atMostOnePrimary (TeacherCampus exampleStore)
   \<and> uniquePairs (StudentCampus exampleStore) \<and> atMostOnePrimary (StudentCampus exampleStore)
   \<and> fst (CampusTeacherService_assignTeacherToCampus examplePermission ''root'' ''C3'' ''T1'' True
          (exec examplePermission (TC_assign ''T2'' ''C3'' True None) exampleStore))
       = Inl STORE_ERROR
   \<and> map isPrimary (TeacherCampus (run examplePermission exampleCalls exampleStore))
       = [True, False, False, False, True]
   \<and> map isPrimary (StudentCampus (run examplePermission exampleCalls exampleStore))
       = [True, False]
   \<and> length (filter (\<lambda>r. personId r = ''T2'' \<and> isPrimary r \<and> status r = ACTIVE)
        (TeacherCampus (run examplePermission exampleCalls exampleStore))) = 1
   \<and> length (filter (\<lambda>r. personId r = ''P1'' \<and> isPrimary r \<and> status r = ACTIVE)
        (StudentCampus (run examplePermission exampleCalls exampleStore))) = 1
   \<and> length (filter (\<lambda>r. personId r = ''T2'' \<and> isPrimary r \<and> status r = ACTIVE)
        (TeacherCampus (run examplePermission exampleCalls exampleStore))) \<le> 1
   \<and> length (filter (\<lambda>r. personId r = ''P1'' \<and> isPrimary r \<and> status r = ACTIVE)
        (StudentCampus (run examplePermission exampleCalls exampleStore))) \<le> 1"
proof -
  have h: "uniquePairs (TeacherCampus exampleStore)" "atMostOnePrimary (TeacherCampus exampleStore)"
    "uniquePairs (StudentCampus exampleStore)" "atMostOnePrimary (StudentCampus exampleStore)"
    by (simp_all add: exampleStore_def uniquePairs_def atMostOnePrimary_def)
  have e: "fst (CampusTeacherService_assignTeacherToCampus examplePermission ''root'' ''C3'' ''T1'' True
          (exec examplePermission (TC_assign ''T2'' ''C3'' True None) exampleStore))
       = Inl STORE_ERROR"
    by (simp add: TeacherCampusService_assignTeacherToCampus_def
        CampusTeacherService_assignTeacherToCampus_def example_defs)
  have c: "map isPrimary (TeacherCampus (run examplePermission exampleCalls exampleStore))
       = [True, False, False, False, True]"
    "map isPrimary (StudentCampus (run examplePermission exampleCalls exampleStore))
       = [True, False]"
    "length (filter (\<lambda>r. personId r = ''T2'' \<and> isPrimary r \<and> status r = ACTIVE)
        (TeacherCampus (run examplePermission exampleCalls exampleStore))) = 1"
    "length (filter (\<lambda>r. personId r = ''P1'' \<and> isPrimary r \<and> status r = ACTIVE)
        (StudentCampus (run examplePermission exampleCalls exampleStore))) = 1"
    by (simp_all add: exampleCalls_teachers exampleCalls_students)
  show ?thesis
    using h e c
      at_most_one_active_primary[OF h, where p = "''T2''" and hasPermission = examplePermission
        and ops = exampleCalls]
      at_most_one_active_primary[OF h, where p = "''P1''" and hasPermission = examplePermission
        and ops = exampleCalls]
    by blast
qed


section \<open>C2: a class assignment stays within the campus of the class's program\<close>




section \<open>C3: a failed call is not rolled back\<close>

text \<open>
  Claim C3 does not hold of the code. Two calls on the example store that fail after
  their first write, and the store each one leaves:
  \<^item> \<^verbatim>\<open>CampusStudentService.setPrimaryCampus\<close> for student \<open>P1\<close> and campus
    \<open>C2\<close>, where \<open>P1\<close> has no assignment: the call clears the primary flag of \<open>P1\<close>
    at \<open>C1\<close>, then fails with \<open>INTERNAL_SERVER_ERROR\<close>; the flag stays cleared.
  \<^item> \<^verbatim>\<open>TeacherCampusService.assignTeacherToClass\<close> with the subject list
    \<open>[S1, S1]\<close>: the class assignment and the first subject assignment are inserted,
    the second insertion violates the unique index and the call throws; the two rows stay.
\<close>

theorem failed_call_leaves_partial_writes:
  "fst (CampusStudentService_setPrimaryCampus examplePermission ''admin'' ''P1'' ''C2'' exampleStore)
     = Inl INTERNAL_SERVER_ERROR
   \<and> map isPrimary (StudentCampus exampleStore) = [True]
   \<and> map isPrimary (StudentCampus (snd
        (CampusStudentService_setPrimaryCampus examplePermission ''admin'' ''P1'' ''C2'' exampleStore)))
     = [False]
   \<and> fst (TeacherCampusService_assignTeacherToClass 2 ''X1'' False [''S1'', ''S1''] exampleStore)
     = Inl STORE_ERROR
   \<and> map classId (TeacherClassAssignment exampleStore) = [''X2'']
   \<and> map classId (TeacherClassAssignment (snd
        (TeacherCampusService_assignTeacherToClass 2 ''X1'' False [''S1'', ''S1''] exampleStore)))
     = [''X2'', ''X1'']
   \<and> map subjectId (TeacherSubjectAssignment exampleStore) = [''S1'', ''S2'']
   \<and> map subjectId (TeacherSubjectAssignment (snd
        (TeacherCampusService_assignTeacherToClass 2 ''X1'' False [''S1'', ''S1''] exampleStore)))
     = [''S1'', ''S2'', ''S1'']"
  by (simp add: CampusStudentService_setPrimaryCampus_def
      TeacherCampusService_assignTeacherToClass_def example_defs)

section \<open>C4: repeated subject ids are not deduplicated\<close>

text \<open>
  Claim C4, as stated, fails. On the example store, \<^verbatim>\<open>assignTeacherToClass\<close> for the
  assignment of \<open>T1\<close> at \<open>C2\<close> (row 2) and class \<open>X1\<close> with the subject list
  \<open>[S1, S1, S2]\<close> throws at the second \<open>S1\<close>, and the new class assignment (row 9) has
  the single subject row \<open>S1\<close>; with the list \<open>[S1, S2]\<close> the call returns and the
  class assignment has the rows \<open>S1\<close> and \<open>S2\<close>. The two calls neither end alike nor
  leave the same rows.
\<close>

theorem duplicate_subject_counterexample:
  "fst (TeacherCampusService_assignTeacherToClass 2 ''X1'' False [''S1'', ''S1'', ''S2''] exampleStore)
     = Inl STORE_ERROR
   \<and> map subjectKey (TeacherSubjectAssignment (snd
        (TeacherCampusService_assignTeacherToClass 2 ''X1'' False [''S1'', ''S1'', ''S2''] exampleStore)))
     = [(6, ''S1''), (6, ''S2''), (9, ''S1'')]
   \<and> fst (TeacherCampusService_assignTeacherToClass 2 ''X1'' False [''S1'', ''S2''] exampleStore)
     = Inr \<lparr>classRowId = 9, teacherCampusId = 2, classId = ''X1'', isClassTeacher = False,
            classStatus = ACTIVE\<rparr>
   \<and> map subjectKey (TeacherSubjectAssignment (snd
        (TeacherCampusService_assignTeacherToClass 2 ''X1'' False [''S1'', ''S2''] exampleStore)))
     = [(6, ''S1''), (6, ''S2''), (9, ''S1''), (9, ''S2'')]"
  by (simp add: TeacherCampusService_assignTeacherToClass_def subjectKey_def example_defs)

text \<open>
  Claim C4, amended. The subject ids of a call are inserted as given, one row each, with no
  deduplication. In a store whose ids come from the counter:
  \<^item> a call whose list repeats a subject id never returns a class assignment (the repeated
    insertion violates the unique index on (class assignment, subject));
  \<^item> when the call returns a class assignment, the subject rows of that class assignment
    are, in order, one for each subject id of the list;
  \<^item> the call does return when the campus assignment and the class resolve to the same
    campus, the pair (campus assignment, class) is new, the subject ids are pairwise
    distinct and each of them is the id of a subject.
\<close>

theorem subjects_inserted_without_dedup:
  assumes "idsFromCounter d"
  shows "(\<not> distinct subjectIds \<longrightarrow>
            (\<forall>ca. fst (TeacherCampusService_assignTeacherToClass tcId clId ict subjectIds d) \<noteq> Inr ca))
   \<and> (fst (TeacherCampusService_assignTeacherToClass tcId clId ict subjectIds d) = Inr ca \<longrightarrow>
         map subjectId (filter (\<lambda>sa. teacherClassAssignmentId sa = classRowId ca)
           (TeacherSubjectAssignment
              (snd (TeacherCampusService_assignTeacherToClass tcId clId ict subjectIds d))))
         = subjectIds)
   \<and> (filter (\<lambda>r. rowId r = tcId) (TeacherCampus d) = teacherCampus # rest
        \<and> map_of (classes d) clId = Some (Some (campusId teacherCampus))
        \<and> filter (\<lambda>x. teacherCampusId x = tcId \<and> classId x = clId) (TeacherClassAssignment d) = []
        \<and> distinct subjectIds \<and> set subjectIds \<subseteq> set (subject d) \<longrightarrow>
         fst (TeacherCampusService_assignTeacherToClass tcId clId ict subjectIds d)
           = Inr \<lparr>classRowId = nextId d, teacherCampusId = tcId, classId = clId,
                  isClassTeacher = ict, classStatus = ACTIVE\<rparr>)"
proof (intro conjI impI allI)
  fix x
  assume nd: "\<not> distinct subjectIds"
  show "fst (TeacherCampusService_assignTeacherToClass tcId clId ict subjectIds d) \<noteq> Inr x"
  proof
    assume "fst (TeacherCampusService_assignTeacherToClass tcId clId ict subjectIds d) = Inr x"
    then obtain d1 where "fst (insertSubjects (classRowId x) subjectIds d1)"
      by (rule assignTeacherToClass_success)
    then show False using insertSubjects_duplicate[OF nd] by blast
  qed
next
  assume ok: "fst (TeacherCampusService_assignTeacherToClass tcId clId ict subjectIds d) = Inr ca"
  then obtain d1 where ins: "insert_TeacherClassAssignment tcId clId ict ACTIVE d = Some (ca, d1)"
    and loop: "fst (insertSubjects (classRowId ca) subjectIds d1)"
    and res: "snd (TeacherCampusService_assignTeacherToClass tcId clId ict subjectIds d)
           = snd (insertSubjects (classRowId ca) subjectIds d1)"
    by (rule assignTeacherToClass_success)
  have n: "classRowId ca = nextId d" and same: "TeacherSubjectAssignment d1 = TeacherSubjectAssignment d"
    using ins by (auto simp: insert_TeacherClassAssignment_def Let_def split: if_splits)
  have old: "\<forall>sa \<in> set (TeacherSubjectAssignment d). teacherClassAssignmentId sa \<noteq> nextId d"
    using assms by (auto simp: idsFromCounter_def)
  show "map subjectId (filter (\<lambda>sa. teacherClassAssignmentId sa = classRowId ca)
           (TeacherSubjectAssignment
              (snd (TeacherCampusService_assignTeacherToClass tcId clId ict subjectIds d))))
         = subjectIds"
  proof -
    have "map subjectKey (TeacherSubjectAssignment (snd (insertSubjects (classRowId ca) subjectIds d1)))
            = map subjectKey (TeacherSubjectAssignment d) @ map (Pair (nextId d)) subjectIds"
      using insertSubjects_keys[OF loop] same n by simp
    then have "filter (\<lambda>k. fst k = nextId d)
                 (map subjectKey (TeacherSubjectAssignment (snd (insertSubjects (classRowId ca) subjectIds d1))))
            = map (Pair (nextId d)) subjectIds"
      by (simp add: filter_keys_new filter_keys_old[OF old])
    then show ?thesis
      unfolding res subjects_of_keys n by (simp add: o_def)
  qed
next
  assume h: "filter (\<lambda>r. rowId r = tcId) (TeacherCampus d) = teacherCampus # rest
        \<and> map_of (classes d) clId = Some (Some (campusId teacherCampus))
        \<and> filter (\<lambda>x. teacherCampusId x = tcId \<and> classId x = clId) (TeacherClassAssignment d) = []
        \<and> distinct subjectIds \<and> set subjectIds \<subseteq> set (subject d)"
  let ?ca = "\<lparr>classRowId = nextId d, teacherCampusId = tcId, classId = clId,
                  isClassTeacher = ict, classStatus = ACTIVE\<rparr>"
  let ?d1 = "d\<lparr>TeacherClassAssignment := TeacherClassAssignment d @ [?ca],
               nextId := Suc (nextId d)\<rparr>"
  have "teacherCampus \<in> set (filter (\<lambda>r. rowId r = tcId) (TeacherCampus d))"
    using h by simp
  then have fk: "tcId \<in> set (map rowId (TeacherCampus d))" by auto
  have pk: "nextId d \<notin> set (map classRowId (TeacherClassAssignment d))"
    using assms by (auto simp: idsFromCounter_def)
  have ins: "insert_TeacherClassAssignment tcId clId ict ACTIVE d = Some (?ca, ?d1)"
    using h fk pk by (simp add: insert_TeacherClassAssignment_def Let_def)
  have loop: "fst (insertSubjects (nextId d) subjectIds ?d1)"
  proof (rule insertSubjects_succeeds)
    show "nextId d \<in> set (map classRowId (TeacherClassAssignment ?d1))" by simp
    show "\<forall>sa \<in> set (TeacherSubjectAssignment ?d1). subjectRowId sa < nextId ?d1"
      using assms by (auto simp: idsFromCounter_def less_Suc_eq)
    show "\<forall>sa \<in> set (TeacherSubjectAssignment ?d1).
            teacherClassAssignmentId sa = nextId d \<longrightarrow> subjectId sa \<notin> set subjectIds"
      using assms by (auto simp: idsFromCounter_def)
    show "distinct subjectIds" using h by simp
    show "set subjectIds \<subseteq> set (subject ?d1)" using h by simp
  qed
  obtain d2 where d2: "insertSubjects (nextId d) subjectIds ?d1 = (True, d2)"
    using loop by (cases "insertSubjects (nextId d) subjectIds ?d1") simp
  have d2': "insertSubjects (classRowId ?ca) subjectIds ?d1 = (True, d2)"
    using d2 by simp
  have h1: "filter (\<lambda>r. rowId r = tcId) (TeacherCampus d) = teacherCampus # rest"
    and h2: "map_of (classes d) clId = Some (Some (campusId teacherCampus))"
    using h by simp_all
  show "fst (TeacherCampusService_assignTeacherToClass tcId clId ict subjectIds d) = Inr ?ca"
    using assignTeacherToClass_unfold[OF h1 h2 ins d2'] by simp
qed

theorem subjects_inserted_without_dedup_witness:
  "idsFromCounter exampleStore
   \<and> \<not> distinct [''S1'', ''S1'', ''S2'']
   \<and> fst (TeacherCampusService_assignTeacherToClass 2 ''X1'' False [''S1'', ''S1'', ''S2''] exampleStore)
       \<noteq> Inr \<lparr>classRowId = 9, teacherCampusId = 2, classId = ''X1'', isClassTeacher = False,
                classStatus = ACTIVE\<rparr>
   \<and> filter (\<lambda>r. rowId r = 2) (TeacherCampus exampleStore)
       = [\<lparr>rowId = 2, personId = ''T1'', campusId = ''C2'', isPrimary = True, status = ACTIVE\<rparr>]
   \<and> map_of (classes exampleStore) ''X1'' = Some (Some ''C2'')
   \<and> filter (\<lambda>x. teacherCampusId x = 2 \<and> classId x = ''X1'') (TeacherClassAssignment exampleStore) = []
   \<and> distinct [''S1'', ''S2''] \<and> set [''S1'', ''S2''] \<subseteq> set (subject exampleStore)
   \<and> fst (TeacherCampusService_assignTeacherToClass 2 ''X1'' False [''S1'', ''S2''] exampleStore)
       = Inr \<lparr>classRowId = 9, teacherCampusId = 2, classId = ''X1'', isClassTeacher = False,
              classStatus = ACTIVE\<rparr>
   \<and> map subjectId (filter (\<lambda>sa. teacherClassAssignmentId sa = 9)
         (TeacherSubjectAssignment
            (snd (TeacherCampusService_assignTeacherToClass 2 ''X1'' False [''S1'', ''S2''] exampleStore))))
       = [''S1'', ''S2'']"
proof -
  let ?tc = "\<lparr>rowId = 2, personId = ''T1'', campusId = ''C2'', isPrimary = True, status = ACTIVE\<rparr>"
  let ?ca = "\<lparr>classRowId = 9, teacherCampusId = 2, classId = ''X1'', isClassTeacher = False,
              classStatus = ACTIVE\<rparr>"
  have w: "idsFromCounter exampleStore"
    by (simp add: idsFromCounter_def exampleStore_def)
  have dup: "\<not> distinct [''S1'', ''S1'', ''S2'']" by simp
  have h: "filter (\<lambda>r. rowId r = 2) (TeacherCampus exampleStore) = ?tc # []"
    "map_of (classes exampleStore) ''X1'' = Some (Some (campusId ?tc))"
    "filter (\<lambda>x. teacherCampusId x = 2 \<and> classId x = ''X1'') (TeacherClassAssignment exampleStore) = []"
    "distinct [''S1'', ''S2'']" "set [''S1'', ''S2''] \<subseteq> set (subject exampleStore)"
    "nextId exampleStore = 9"
    by (simp_all add: exampleStore_def)
  note t1 = subjects_inserted_without_dedup[OF w, where subjectIds = "[''S1'', ''S1'', ''S2'']"
      and tcId = 2 and clId = "''X1''" and ict = False]
  note t2 = subjects_inserted_without_dedup[OF w, where subjectIds = "[''S1'', ''S2'']"
      and tcId = 2 and clId = "''X1''" and ict = False and ca = ?ca and teacherCampus = ?tc
      and rest = "[]"]
  have a: "fst (TeacherCampusService_assignTeacherToClass 2 ''X1'' False [''S1'', ''S1'', ''S2''] exampleStore)
       \<noteq> Inr ?ca"
    using dup t1 by blast
  have b: "fst (TeacherCampusService_assignTeacherToClass 2 ''X1'' False [''S1'', ''S2''] exampleStore)
       = Inr ?ca"
    using h t2 by simp
  have c: "map subjectId (filter (\<lambda>sa. teacherClassAssignmentId sa = 9)
         (TeacherSubjectAssignment
            (snd (TeacherCampusService_assignTeacherToClass 2 ''X1'' False [''S1'', ''S2''] exampleStore))))
       = [''S1'', ''S2'']"
    using b t2 by simp
  show ?thesis
    using w dup h a b c by simp
qed

section \<open>C5: removal deletes the descendants and nothing else\<close>

text \<open>
  Claim C5. In a store that respects the primary key and the unique index of
  \<^verbatim>\<open>"TeacherCampus"\<close>, \<^verbatim>\<open>CampusTeacherService.removeTeacherFromCampus\<close> (one
  \<^verbatim>\<open>DELETE\<close>, the foreign keys cascading) succeeds exactly when the acting user has
  the permission and the pair (teacher, campus) has an assignment, and
  \<^verbatim>\<open>TeacherCampusService.removeTeacherFromCampus\<close> (three \<^verbatim>\<open>DELETE\<close> statements
  in a transaction) succeeds exactly when the pair has an assignment. A successful call of
  either leaves the same store: the assignment of the pair is gone with the class
  assignments that hang off it and their subject assignments, and every other row is as it
  was, so the assignments of the teacher at other campuses keep their primary flag and no
  new primary is chosen. If no row was an orphan before the call, none is after.
\<close>

theorem remove_deletes_descendants:
  assumes "distinct (map rowId (TeacherCampus d))" and "uniquePairs (TeacherCampus d)"
  shows "(fst (CampusTeacherService_removeTeacherFromCampus hasPermission userId cId tId d) = Inr Success
            \<longleftrightarrow> hasPermission userId cId MANAGE_CAMPUS_TEACHERS
                  \<and> selectByPair tId cId (TeacherCampus d) \<noteq> [])
       \<and> (fst (TeacherCampusService_removeTeacherFromCampus tId cId d) = Inr Success
            \<longleftrightarrow> selectByPair tId cId (TeacherCampus d) \<noteq> [])
       \<and> (fst (CampusTeacherService_removeTeacherFromCampus hasPermission userId cId tId d) = Inr Success
            \<longrightarrow> removedFrom tId cId d
                  (snd (CampusTeacherService_removeTeacherFromCampus hasPermission userId cId tId d)))
       \<and> (fst (TeacherCampusService_removeTeacherFromCampus tId cId d) = Inr Success
            \<longrightarrow> removedFrom tId cId d (snd (TeacherCampusService_removeTeacherFromCampus tId cId d)))
       \<and> (noOrphans d \<longrightarrow>
            noOrphans (snd (CampusTeacherService_removeTeacherFromCampus hasPermission userId cId tId d))
            \<and> noOrphans (snd (TeacherCampusService_removeTeacherFromCampus tId cId d)))"
proof -
  let ?ct = "CampusTeacherService_removeTeacherFromCampus hasPermission userId cId tId d"
  let ?tc = "TeacherCampusService_removeTeacherFromCampus tId cId d"
  have ct: "removedFrom tId cId d (snd ?ct)" if "fst ?ct = Inr Success"
    using that CT_remove_removedFrom[of hasPermission userId cId tId d "snd ?ct"]
    by (metis prod.collapse)
  have tc: "removedFrom tId cId d (snd ?tc)" if "fst ?tc = Inr Success"
    using that TC_remove_removedFrom[OF assms, of tId cId "snd ?tc"]
    by (metis prod.collapse)
  have oct: "noOrphans (snd ?ct)" if "noOrphans d"
  proof (cases "fst ?ct = Inr Success")
    case True
    then show ?thesis using removedFrom_noOrphans[OF ct that] by simp
  next
    case False
    then show ?thesis using that CT_remove_failure[of hasPermission userId cId tId d] by simp
  qed
  have otc: "noOrphans (snd ?tc)" if "noOrphans d"
  proof (cases "fst ?tc = Inr Success")
    case True
    then show ?thesis using removedFrom_noOrphans[OF tc that] by simp
  next
    case False
    then show ?thesis using that TC_remove_failure[of tId cId d] by simp
  qed
  show ?thesis
    using ct tc oct otc CT_remove_success[of hasPermission userId cId tId d]
      TC_remove_success[of tId cId d]
    by blast
qed

theorem remove_deletes_descendants_witness:
  "distinct (map rowId (TeacherCampus exampleStore)) \<and> uniquePairs (TeacherCampus exampleStore)
   \<and> noOrphans exampleStore
   \<and> examplePermission ''admin'' ''C1'' MANAGE_CAMPUS_TEACHERS
   \<and> selectByPair ''T1'' ''C1'' (TeacherCampus exampleStore) \<noteq> []
   \<and> fst (CampusTeacherService_removeTeacherFromCampus examplePermission ''admin'' ''C1'' ''T1''
            exampleStore) = Inr Success
   \<and> fst (TeacherCampusService_removeTeacherFromCampus ''T1'' ''C1'' exampleStore) = Inr Success
   \<and> removedFrom ''T1'' ''C1'' exampleStore
        (snd (CampusTeacherService_removeTeacherFromCampus examplePermission ''admin'' ''C1'' ''T1''
                exampleStore))
   \<and> removedFrom ''T1'' ''C1'' exampleStore
        (snd (TeacherCampusService_removeTeacherFromCampus ''T1'' ''C1'' exampleStore))
   \<and> noOrphans
        (snd (CampusTeacherService_removeTeacherFromCampus examplePermission ''admin'' ''C1'' ''T1''
                exampleStore))
   \<and> noOrphans (snd (TeacherCampusService_removeTeacherFromCampus ''T1'' ''C1'' exampleStore))
   \<and> TeacherCampus
        (snd (CampusTeacherService_removeTeacherFromCampus examplePermission ''admin'' ''C1'' ''T1''
                exampleStore))
       = [\<lparr>rowId = 2, personId = ''T1'', campusId = ''C2'', isPrimary = True, status = ACTIVE\<rparr>,
          \<lparr>rowId = 3, personId = ''T2'', campusId = ''C1'', isPrimary = True, status = ARCHIVED\<rparr>,
          \<lparr>rowId = 4, personId = ''T2'', campusId = ''C2'', isPrimary = False, status = INACTIVE\<rparr>]
   \<and> TeacherClassAssignment
        (snd (CampusTeacherService_removeTeacherFromCampus examplePermission ''admin'' ''C1'' ''T1''
                exampleStore)) = []
   \<and> TeacherSubjectAssignment
        (snd (CampusTeacherService_removeTeacherFromCampus examplePermission ''admin'' ''C1'' ''T1''
                exampleStore)) = []
   \<and> TeacherCampus (snd (TeacherCampusService_removeTeacherFromCampus ''T1'' ''C1'' exampleStore))
       = [\<lparr>rowId = 2, personId = ''T1'', campusId = ''C2'', isPrimary = True, status = ACTIVE\<rparr>,
          \<lparr>rowId = 3, personId = ''T2'', campusId = ''C1'', isPrimary = True, status = ARCHIVED\<rparr>,
          \<lparr>rowId = 4, personId = ''T2'', campusId = ''C2'', isPrimary = False, status = INACTIVE\<rparr>]
   \<and> TeacherClassAssignment
        (snd (TeacherCampusService_removeTeacherFromCampus ''T1'' ''C1'' exampleStore)) = []
   \<and> TeacherSubjectAssignment
        (snd (TeacherCampusService_removeTeacherFromCampus ''T1'' ''C1'' exampleStore)) = []"
proof -
  let ?ct = "CampusTeacherService_removeTeacherFromCampus examplePermission ''admin'' ''C1'' ''T1''
                exampleStore"
  let ?tc = "TeacherCampusService_removeTeacherFromCampus ''T1'' ''C1'' exampleStore"
  have h: "distinct (map rowId (TeacherCampus exampleStore))" "uniquePairs (TeacherCampus exampleStore)"
    by (simp_all add: exampleStore_def uniquePairs_def)
  have n: "noOrphans exampleStore"
    by (simp add: noOrphans_def exampleStore_def)
  have q: "examplePermission ''admin'' ''C1'' MANAGE_CAMPUS_TEACHERS"
    "selectByPair ''T1'' ''C1'' (TeacherCampus exampleStore) \<noteq> []"
    by (simp_all add: example_defs)
  have t: "TeacherCampus (snd ?ct)
       = [\<lparr>rowId = 2, personId = ''T1'', campusId = ''C2'', isPrimary = True, status = ACTIVE\<rparr>,
          \<lparr>rowId = 3, personId = ''T2'', campusId = ''C1'', isPrimary = True, status = ARCHIVED\<rparr>,
          \<lparr>rowId = 4, personId = ''T2'', campusId = ''C2'', isPrimary = False, status = INACTIVE\<rparr>]"
    "TeacherClassAssignment (snd ?ct) = []" "TeacherSubjectAssignment (snd ?ct) = []"
    by (simp_all add: CampusTeacherService_removeTeacherFromCampus_def example_defs)
  have u: "TeacherCampus (snd ?tc)
       = [\<lparr>rowId = 2, personId = ''T1'', campusId = ''C2'', isPrimary = True, status = ACTIVE\<rparr>,
          \<lparr>rowId = 3, personId = ''T2'', campusId = ''C1'', isPrimary = True, status = ARCHIVED\<rparr>,
          \<lparr>rowId = 4, personId = ''T2'', campusId = ''C2'', isPrimary = False, status = INACTIVE\<rparr>]"
    "TeacherClassAssignment (snd ?tc) = []" "TeacherSubjectAssignment (snd ?tc) = []"
    by (simp_all add: TeacherCampusService_removeTeacherFromCampus_def example_defs)
  note r = remove_deletes_descendants[OF h, where hasPermission = examplePermission
      and userId = "''admin''" and cId = "''C1''" and tId = "''T1''"]
  have s: "fst ?ct = Inr Success" "fst ?tc = Inr Success"
    using q r by blast+
  have d: "removedFrom ''T1'' ''C1'' exampleStore (snd ?ct)"
    "removedFrom ''T1'' ''C1'' exampleStore (snd ?tc)"
    using s r by blast+
  have o: "noOrphans (snd ?ct)" "noOrphans (snd ?tc)"
    using n r by blast+
  show ?thesis
    using h n q s d o t u by simp
qed


section \<open>C6: where an acting user is checked, a user without permission cannot assign\<close>

text \<open>
  Claim C6, as stated, fails. \<^verbatim>\<open>TeacherCampusService.assignTeacherToCampus\<close> takes
  no acting user and asks the permission check nothing. In the example store no user has a
  permission at campus \<open>C3\<close>, and user \<open>guest\<close> is no super-admin; the call that
  assigns \<open>T1\<close> to \<open>C3\<close> returns the new assignment (row 9) and the row is in the
  table, whoever makes the call.
\<close>

theorem assign_without_permission_counterexample:
  "\<not> isSuperAdmin exampleStore ''guest''
   \<and> \<not> examplePermission ''guest'' ''C3'' MANAGE_CAMPUS_TEACHERS
   \<and> fst (TeacherCampusService_assignTeacherToCampus ''T1'' ''C3'' False None exampleStore)
       = Inr \<lparr>rowId = 9, personId = ''T1'', campusId = ''C3'', isPrimary = False, status = ACTIVE\<rparr>
   \<and> TeacherCampus (snd (TeacherCampusService_assignTeacherToCampus ''T1'' ''C3'' False None
                           exampleStore))
       = TeacherCampus exampleStore
         @ [\<lparr>rowId = 9, personId = ''T1'', campusId = ''C3'', isPrimary = False, status = ACTIVE\<rparr>]"
  by (simp add: TeacherCampusService_assignTeacherToCampus_def example_defs)

text \<open>
  Claim C6, amended. The operations that take an acting user refuse the user the
  permission check denies: \<^verbatim>\<open>CampusTeacherService.assignTeacherToCampus\<close>, when the
  user is no super-admin and lacks the permission to manage the teachers of the campus,
  and \<^verbatim>\<open>CampusStudentService.assignStudentToCampus\<close>, which knows no super-admin,
  when the user lacks the permission to manage the students of the campus, fail with
  \<open>FORBIDDEN\<close> and return the store as it was. \<^verbatim>\<open>TeacherCampusService.assignTeacherToCampus\<close>
  never fails with \<open>FORBIDDEN\<close>: when the teacher and the campus exist, the pair has no
  assignment and the new id is free, it inserts the row and returns it.
\<close>

theorem assign_forbidden_where_checked:
  "(\<not> isSuperAdmin d userId \<and> \<not> hasPermission userId cId MANAGE_CAMPUS_TEACHERS \<longrightarrow>
      CampusTeacherService_assignTeacherToCampus hasPermission userId cId tId isPrim d
        = (Inl FORBIDDEN, d))
   \<and> (\<not> hasPermission userId cId MANAGE_CAMPUS_STUDENTS \<longrightarrow>
      CampusStudentService_assignStudentToCampus hasPermission userId cId sId isPrim d
        = (Inl FORBIDDEN, d))
   \<and> fst (TeacherCampusService_assignTeacherToCampus tId cId isPrim st d) \<noteq> Inl FORBIDDEN
   \<and> (tId \<in> set (teacherProfile d) \<and> cId \<in> set (campus d)
        \<and> selectByPair tId cId (TeacherCampus d) = []
        \<and> nextId d \<notin> set (map rowId (TeacherCampus d)) \<longrightarrow>
      TeacherCampusService_assignTeacherToCampus tId cId isPrim st d
        = (Inr \<lparr>rowId = nextId d, personId = tId, campusId = cId, isPrimary = isPrim,
                 status = (case st of None \<Rightarrow> ACTIVE | Some s \<Rightarrow> s)\<rparr>,
           d\<lparr>TeacherCampus :=
                (if isPrim then unsetPrimary tId (TeacherCampus d) else TeacherCampus d)
                @ [\<lparr>rowId = nextId d, personId = tId, campusId = cId, isPrimary = isPrim,
                     status = (case st of None \<Rightarrow> ACTIVE | Some s \<Rightarrow> s)\<rparr>],
              nextId := Suc (nextId d)\<rparr>))"
proof (intro conjI impI)
  show "fst (TeacherCampusService_assignTeacherToCampus tId cId isPrim st d) \<noteq> Inl FORBIDDEN"
    by (rule TC_assign_not_forbidden)
next
  assume "tId \<in> set (teacherProfile d) \<and> cId \<in> set (campus d)
        \<and> selectByPair tId cId (TeacherCampus d) = []
        \<and> nextId d \<notin> set (map rowId (TeacherCampus d))"
  then show "TeacherCampusService_assignTeacherToCampus tId cId isPrim st d
        = (Inr \<lparr>rowId = nextId d, personId = tId, campusId = cId, isPrimary = isPrim,
                 status = (case st of None \<Rightarrow> ACTIVE | Some s \<Rightarrow> s)\<rparr>,
           d\<lparr>TeacherCampus :=
                (if isPrim then unsetPrimary tId (TeacherCampus d) else TeacherCampus d)
                @ [\<lparr>rowId = nextId d, personId = tId, campusId = cId, isPrimary = isPrim,
                     status = (case st of None \<Rightarrow> ACTIVE | Some s \<Rightarrow> s)\<rparr>],
              nextId := Suc (nextId d)\<rparr>)"
    using TC_assign_succeeds[of tId d cId isPrim st] by blast
qed (simp_all add: CampusTeacherService_assignTeacherToCampus_def
      CampusStudentService_assignStudentToCampus_def)

theorem assign_forbidden_where_checked_witness:
  "\<not> isSuperAdmin exampleStore ''admin''
   \<and> \<not> examplePermission ''admin'' ''C3'' MANAGE_CAMPUS_TEACHERS
   \<and> \<not> examplePermission ''admin'' ''C3'' MANAGE_CAMPUS_STUDENTS
   \<and> ''T1'' \<in> set (teacherProfile exampleStore) \<and> ''C3'' \<in> set (campus exampleStore)
   \<and> selectByPair ''T1'' ''C3'' (TeacherCampus exampleStore) = []
   \<and> nextId exampleStore \<notin> set (map rowId (TeacherCampus exampleStore))
   \<and> CampusTeacherService_assignTeacherToCampus examplePermission ''admin'' ''C3'' ''T1'' False
         exampleStore = (Inl FORBIDDEN, exampleStore)
   \<and> CampusStudentService_assignStudentToCampus examplePermission ''admin'' ''C3'' ''P1'' False
         exampleStore = (Inl FORBIDDEN, exampleStore)
   \<and> fst (TeacherCampusService_assignTeacherToCampus ''T1'' ''C3'' False None exampleStore)
       = Inr \<lparr>rowId = 9, personId = ''T1'', campusId = ''C3'', isPrimary = False, status = ACTIVE\<rparr>"
proof -
  have h: "\<not> isSuperAdmin exampleStore ''admin''"
    "\<not> examplePermission ''admin'' ''C3'' MANAGE_CAMPUS_TEACHERS"
    "\<not> examplePermission ''admin'' ''C3'' MANAGE_CAMPUS_STUDENTS"
    "''T1'' \<in> set (teacherProfile exampleStore)" "''C3'' \<in> set (campus exampleStore)"
    "selectByPair ''T1'' ''C3'' (TeacherCampus exampleStore) = []"
    "nextId exampleStore \<notin> set (map rowId (TeacherCampus exampleStore))"
    by (simp_all add: example_defs)
  have n: "nextId exampleStore = 9"
    by (simp add: exampleStore_def)
  note t = assign_forbidden_where_checked[where d = exampleStore and userId = "''admin''"
      and hasPermission = examplePermission and cId = "''C3''" and tId = "''T1''"
      and isPrim = False and sId = "''P1''" and st = None]
  have a: "CampusTeacherService_assignTeacherToCampus examplePermission ''admin'' ''C3'' ''T1'' False
         exampleStore = (Inl FORBIDDEN, exampleStore)"
    using h t by blast
  have b: "CampusStudentService_assignStudentToCampus examplePermission ''admin'' ''C3'' ''P1'' False
         exampleStore = (Inl FORBIDDEN, exampleStore)"
    using h t by blast
  have "TeacherCampusService_assignTeacherToCampus ''T1'' ''C3'' False None exampleStore
        = (Inr \<lparr>rowId = nextId exampleStore, personId = ''T1'', campusId = ''C3'', isPrimary = False,
                 status = (case None of None \<Rightarrow> ACTIVE | Some s \<Rightarrow> s)\<rparr>,
           exampleStore\<lparr>TeacherCampus :=
                (if False then unsetPrimary ''T1'' (TeacherCampus exampleStore)
                 else TeacherCampus exampleStore)
                @ [\<lparr>rowId = nextId exampleStore, personId = ''T1'', campusId = ''C3'',
                     isPrimary = False, status = (case None of None \<Rightarrow> ACTIVE | Some s \<Rightarrow> s)\<rparr>],
              nextId := Suc (nextId exampleStore)\<rparr>)"
    using h t by blast
  then have c: "fst (TeacherCampusService_assignTeacherToCampus ''T1'' ''C3'' False None exampleStore)
       = Inr \<lparr>rowId = 9, personId = ''T1'', campusId = ''C3'', isPrimary = False, status = ACTIVE\<rparr>"
    using n by simp
  show ?thesis
    using h a b c by simp
qed

section \<open>C7: when setPrimaryCampus fails with NOT_FOUND\<close>

text \<open>
  Claim C7, as stated, fails. Teacher \<open>T2\<close> has no \<open>ACTIVE\<close> assignment at campus
  \<open>C2\<close> in the example store (the only row of the pair is \<open>INACTIVE\<close>), yet
  \<^verbatim>\<open>CampusTeacherService.setPrimaryCampus\<close> does not fail: it returns the assignment,
  primary and still \<open>INACTIVE\<close>. Student \<open>P1\<close> has no assignment at all at \<open>C2\<close>,
  and \<^verbatim>\<open>CampusStudentService.setPrimaryCampus\<close> fails with
  \<open>INTERNAL_SERVER_ERROR\<close>, not with \<open>NOT_FOUND\<close>.
\<close>

theorem setPrimaryCampus_inactive_counterexample:
  "map status (selectByPair ''T2'' ''C2'' (TeacherCampus exampleStore)) = [INACTIVE]
   \<and> fst (CampusTeacherService_setPrimaryCampus ''admin'' ''T2'' ''C2'' exampleStore)
       = Inr (TeacherCampusAssignment ''T2'' ''C2'' True INACTIVE)
   \<and> selectByPair ''P1'' ''C2'' (StudentCampus exampleStore) = []
   \<and> fst (CampusStudentService_setPrimaryCampus examplePermission ''admin'' ''P1'' ''C2'' exampleStore)
       = Inl INTERNAL_SERVER_ERROR"
  by (simp add: CampusTeacherService_setPrimaryCampus_def CampusStudentService_setPrimaryCampus_def
      example_defs)

text \<open>
  Claim C7, amended. \<^verbatim>\<open>setPrimaryCampus\<close> does not look at the status.
  \<^verbatim>\<open>CampusTeacherService.setPrimaryCampus\<close> fails with \<open>NOT_FOUND\<close> exactly when the
  table holds no row for the pair (teacher, campus), whatever the status of the rows; when
  a row exists and the teacher and the campus resolve, it returns the assignment with
  \<open>isPrimary = true\<close> and the status the first selected row had, and every row of the
  pair is primary in the store it leaves. \<^verbatim>\<open>CampusStudentService.setPrimaryCampus\<close>,
  for an acting user with the permission, fails with \<open>INTERNAL_SERVER_ERROR\<close> exactly
  when no row exists for the pair, never with \<open>NOT_FOUND\<close>, and otherwise returns the
  row with \<open>isPrimary = true\<close>.
\<close>

theorem setPrimaryCampus_not_found_iff:
  "(fst (CampusTeacherService_setPrimaryCampus userId pId cId d) = Inl NOT_FOUND
      \<longleftrightarrow> selectByPair pId cId (TeacherCampus d) = [])
   \<and> (selectByPair pId cId (TeacherCampus d) = row # rest
        \<and> pId \<in> set (teacherProfile d) \<and> cId \<in> set (campus d) \<longrightarrow>
        fst (CampusTeacherService_setPrimaryCampus userId pId cId d)
          = Inr (TeacherCampusAssignment pId cId True (status row))
        \<and> selectByPair pId cId
              (TeacherCampus (snd (CampusTeacherService_setPrimaryCampus userId pId cId d)))
          = map (\<lambda>r. r\<lparr>isPrimary := True\<rparr>) (row # rest))
   \<and> (hasPermission userId cId MANAGE_CAMPUS_STUDENTS \<longrightarrow>
        (fst (CampusStudentService_setPrimaryCampus hasPermission userId pId cId d)
           = Inl INTERNAL_SERVER_ERROR \<longleftrightarrow> selectByPair pId cId (StudentCampus d) = [])
        \<and> fst (CampusStudentService_setPrimaryCampus hasPermission userId pId cId d) \<noteq> Inl NOT_FOUND)
   \<and> (hasPermission userId cId MANAGE_CAMPUS_STUDENTS
        \<and> selectByPair pId cId (StudentCampus d) = studentRow # studentRest \<longrightarrow>
        fst (CampusStudentService_setPrimaryCampus hasPermission userId pId cId d)
          = Inr (studentRow\<lparr>isPrimary := True\<rparr>)
        \<and> selectByPair pId cId
              (StudentCampus (snd (CampusStudentService_setPrimaryCampus hasPermission userId pId cId d)))
          = map (\<lambda>r. r\<lparr>isPrimary := True\<rparr>) (studentRow # studentRest))"
proof -
  have t: "(fst (CampusTeacherService_setPrimaryCampus userId pId cId d) = Inl NOT_FOUND
      \<longleftrightarrow> selectByPair pId cId (TeacherCampus d) = [])
   \<and> (selectByPair pId cId (TeacherCampus d) = row # rest
        \<and> pId \<in> set (teacherProfile d) \<and> cId \<in> set (campus d) \<longrightarrow>
        fst (CampusTeacherService_setPrimaryCampus userId pId cId d)
          = Inr (TeacherCampusAssignment pId cId True (status row))
        \<and> selectByPair pId cId
              (TeacherCampus (snd (CampusTeacherService_setPrimaryCampus userId pId cId d)))
          = map (\<lambda>r. r\<lparr>isPrimary := True\<rparr>) (row # rest))"
  proof (cases "selectByPair pId cId (TeacherCampus d)")
    case Nil
    then show ?thesis by (simp add: CampusTeacherService_setPrimaryCampus_def)
  next
    case (Cons a as)
    then show ?thesis
      by (simp add: CampusTeacherService_setPrimaryCampus_def Let_def select_designate)
  qed
  have s: "(hasPermission userId cId MANAGE_CAMPUS_STUDENTS \<longrightarrow>
        (fst (CampusStudentService_setPrimaryCampus hasPermission userId pId cId d)
           = Inl INTERNAL_SERVER_ERROR \<longleftrightarrow> selectByPair pId cId (StudentCampus d) = [])
        \<and> fst (CampusStudentService_setPrimaryCampus hasPermission userId pId cId d) \<noteq> Inl NOT_FOUND)
   \<and> (hasPermission userId cId MANAGE_CAMPUS_STUDENTS
        \<and> selectByPair pId cId (StudentCampus d) = studentRow # studentRest \<longrightarrow>
        fst (CampusStudentService_setPrimaryCampus hasPermission userId pId cId d)
          = Inr (studentRow\<lparr>isPrimary := True\<rparr>)
        \<and> selectByPair pId cId
              (StudentCampus (snd (CampusStudentService_setPrimaryCampus hasPermission userId pId cId d)))
          = map (\<lambda>r. r\<lparr>isPrimary := True\<rparr>) (studentRow # studentRest))"
  proof (cases "selectByPair pId cId (StudentCampus d)")
    case Nil
    then show ?thesis
      by (simp add: CampusStudentService_setPrimaryCampus_def Let_def select_unset_same)
  next
    case (Cons a as)
    then show ?thesis
      by (simp add: CampusStudentService_setPrimaryCampus_def Let_def select_unset_same
          select_designate)
  qed
  show ?thesis using t s by blast
qed

theorem setPrimaryCampus_not_found_iff_witness:
  "selectByPair ''T2'' ''C2'' (TeacherCampus exampleStore)
     = [\<lparr>rowId = 4, personId = ''T2'', campusId = ''C2'', isPrimary = False, status = INACTIVE\<rparr>]
   \<and> ''T2'' \<in> set (teacherProfile exampleStore) \<and> ''C2'' \<in> set (campus exampleStore)
   \<and> fst (CampusTeacherService_setPrimaryCampus ''admin'' ''T2'' ''C2'' exampleStore)
       = Inr (TeacherCampusAssignment ''T2'' ''C2'' True INACTIVE)
   \<and> selectByPair ''T2'' ''C2''
        (TeacherCampus (snd (CampusTeacherService_setPrimaryCampus ''admin'' ''T2'' ''C2'' exampleStore)))
       = [\<lparr>rowId = 4, personId = ''T2'', campusId = ''C2'', isPrimary = True, status = INACTIVE\<rparr>]
   \<and> selectByPair ''T2'' ''C3'' (TeacherCampus exampleStore) = []
   \<and> fst (CampusTeacherService_setPrimaryCampus ''admin'' ''T2'' ''C3'' exampleStore) = Inl NOT_FOUND
   \<and> examplePermission ''admin'' ''C1'' MANAGE_CAMPUS_STUDENTS
   \<and> selectByPair ''P1'' ''C1'' (StudentCampus exampleStore)
       = [\<lparr>rowId = 5, personId = ''P1'', campusId = ''C1'', isPrimary = True, status = ACTIVE\<rparr>]
   \<and> fst (CampusStudentService_setPrimaryCampus examplePermission ''admin'' ''P1'' ''C1'' exampleStore)
       = Inr \<lparr>rowId = 5, personId = ''P1'', campusId = ''C1'', isPrimary = True, status = ACTIVE\<rparr>
   \<and> examplePermission ''admin'' ''C2'' MANAGE_CAMPUS_STUDENTS
   \<and> selectByPair ''P1'' ''C2'' (StudentCampus exampleStore) = []
   \<and> fst (CampusStudentService_setPrimaryCampus examplePermission ''admin'' ''P1'' ''C2'' exampleStore)
       = Inl INTERNAL_SERVER_ERROR"
proof -
  let ?r = "\<lparr>rowId = 4, personId = ''T2'', campusId = ''C2'', isPrimary = False, status = INACTIVE\<rparr>"
  let ?q = "\<lparr>rowId = 5, personId = ''P1'', campusId = ''C1'', isPrimary = True, status = ACTIVE\<rparr>"
  have h: "selectByPair ''T2'' ''C2'' (TeacherCampus exampleStore) = ?r # []"
    "''T2'' \<in> set (teacherProfile exampleStore)" "''C2'' \<in> set (campus exampleStore)"
    "selectByPair ''T2'' ''C3'' (TeacherCampus exampleStore) = []"
    "examplePermission ''admin'' ''C1'' MANAGE_CAMPUS_STUDENTS"
    "selectByPair ''P1'' ''C1'' (StudentCampus exampleStore) = ?q # []"
    "examplePermission ''admin'' ''C2'' MANAGE_CAMPUS_STUDENTS"
    "selectByPair ''P1'' ''C2'' (StudentCampus exampleStore) = []"
    by (simp_all add: exampleStore_def examplePermission_def selectByPair_def)
  show ?thesis
    using h
      setPrimaryCampus_not_found_iff[where userId = "''admin''" and pId = "''T2''"
        and cId = "''C2''" and d = exampleStore and row = ?r and rest = "[]"]
      setPrimaryCampus_not_found_iff[where userId = "''admin''" and pId = "''T2''"
        and cId = "''C3''" and d = exampleStore]
      setPrimaryCampus_not_found_iff[where userId = "''admin''" and pId = "''P1''"
        and cId = "''C1''" and d = exampleStore and hasPermission = examplePermission
        and studentRow = ?q and studentRest = "[]"]
      setPrimaryCampus_not_found_iff[where userId = "''admin''" and pId = "''P1''"
        and cId = "''C2''" and d = exampleStore and hasPermission = examplePermission]
    by simp
qed

section \<open>C8: ARCHIVED is not terminal\<close>

text \<open>
  Claim C8, as stated, fails: in the example store the assignment of \<open>T2\<close> at \<open>C1\<close>
  (row 3) is \<open>ARCHIVED\<close>; \<^verbatim>\<open>TeacherCampusService.updateAssignmentStatus\<close> makes
  it \<open>ACTIVE\<close>, and \<^verbatim>\<open>CampusTeacherService.updateTeacherCampusStatus\<close> makes it
  \<open>INACTIVE\<close>.
\<close>

theorem archived_reactivated_counterexample:
  "map status (TeacherCampus exampleStore) = [ACTIVE, ACTIVE, ARCHIVED, INACTIVE]
   \<and> map status (TeacherCampus (snd (TeacherCampusService_updateAssignmentStatus 3 ACTIVE exampleStore)))
       = [ACTIVE, ACTIVE, ACTIVE, INACTIVE]
   \<and> map status (TeacherCampus (snd (CampusTeacherService_updateTeacherCampusStatus
          examplePermission ''admin'' ''C1'' ''T2'' INACTIVE exampleStore)))
       = [ACTIVE, ACTIVE, INACTIVE, INACTIVE]"
  by (simp add: TeacherCampusService_updateAssignmentStatus_def
      CampusTeacherService_updateTeacherCampusStatus_def exampleStore_def examplePermission_def
      selectByPair_def setStatusById_def setStatusWhere_def Let_def)

text \<open>
  Claim C8, amended. A status update overwrites the status of the addressed assignment
  with the requested status, whatever status the row had, \<open>ARCHIVED\<close> included:
  \<^verbatim>\<open>TeacherCampusService.updateAssignmentStatus\<close> for the row with the given id,
  \<^verbatim>\<open>CampusTeacherService.updateTeacherCampusStatus\<close> and
  \<^verbatim>\<open>CampusStudentService.updateStudentCampusStatus\<close> for the rows of the pair (person,
  campus) when the acting user has the permission. Every other operation keeps the
  status of every row that exists before and after it.
\<close>

theorem status_overwritten_by_update_only:
  "(r \<in> set (TeacherCampus d) \<and> rowId r = tcId \<longrightarrow>
      r\<lparr>status := s\<rparr> \<in> set (TeacherCampus (snd (TeacherCampusService_updateAssignmentStatus tcId s d))))
   \<and> (hasPermission userId cId MANAGE_CAMPUS_TEACHERS \<and> r \<in> set (TeacherCampus d)
        \<and> personId r = pId \<and> campusId r = cId \<longrightarrow>
      r\<lparr>status := s\<rparr> \<in> set (TeacherCampus (snd
         (CampusTeacherService_updateTeacherCampusStatus hasPermission userId cId pId s d))))
   \<and> (hasPermission userId cId MANAGE_CAMPUS_STUDENTS \<and> r \<in> set (StudentCampus d)
        \<and> personId r = pId \<and> campusId r = cId \<longrightarrow>
      r\<lparr>status := s\<rparr> \<in> set (StudentCampus (snd
         (CampusStudentService_updateStudentCampusStatus hasPermission userId cId pId s d))))
   \<and> (\<not> isStatusUpdate x \<longrightarrow>
        keepsStatus (nextId d) (TeacherCampus d) (TeacherCampus (exec hasPermission x d))
        \<and> keepsStatus (nextId d) (StudentCampus d) (StudentCampus (exec hasPermission x d)))"
proof (intro conjI impI)
  assume "r \<in> set (TeacherCampus d) \<and> rowId r = tcId"
  then show "r\<lparr>status := s\<rparr> \<in> set (TeacherCampus (snd (TeacherCampusService_updateAssignmentStatus tcId s d)))"
    by (simp add: TeacherCampusService_updateAssignmentStatus_def Let_def setStatusById_mem
        split: list.splits)
next
  assume a: "hasPermission userId cId MANAGE_CAMPUS_TEACHERS \<and> r \<in> set (TeacherCampus d)
        \<and> personId r = pId \<and> campusId r = cId"
  then have "selectByPair pId cId (TeacherCampus d) \<noteq> []"
    using select_nonempty[of r "TeacherCampus d" pId cId] by blast
  then show "r\<lparr>status := s\<rparr> \<in> set (TeacherCampus (snd
         (CampusTeacherService_updateTeacherCampusStatus hasPermission userId cId pId s d)))"
    using a by (simp add: CampusTeacherService_updateTeacherCampusStatus_def Let_def
        setStatusWhere_mem split: list.splits)
next
  assume a: "hasPermission userId cId MANAGE_CAMPUS_STUDENTS \<and> r \<in> set (StudentCampus d)
        \<and> personId r = pId \<and> campusId r = cId"
  then have "selectByPair pId cId (StudentCampus d) \<noteq> []"
    using select_nonempty[of r "StudentCampus d" pId cId] by blast
  then show "r\<lparr>status := s\<rparr> \<in> set (StudentCampus (snd
         (CampusStudentService_updateStudentCampusStatus hasPermission userId cId pId s d)))"
    using a by (simp add: CampusStudentService_updateStudentCampusStatus_def Let_def
        setStatusWhere_mem split: list.splits)
next
  assume "\<not> isStatusUpdate x"
  then show "keepsStatus (nextId d) (TeacherCampus d) (TeacherCampus (exec hasPermission x d))"
    using exec_keeps[of x d hasPermission] by (simp add: keeps_def)
next
  assume "\<not> isStatusUpdate x"
  then show "keepsStatus (nextId d) (StudentCampus d) (StudentCampus (exec hasPermission x d))"
    using exec_keeps[of x d hasPermission] by (simp add: keeps_def)
qed

theorem status_overwritten_by_update_only_witness:
  "\<lparr>rowId = 3, personId = ''T2'', campusId = ''C1'', isPrimary = True, status = ARCHIVED\<rparr>
      \<in> set (TeacherCampus exampleStore)
   \<and> examplePermission ''admin'' ''C1'' MANAGE_CAMPUS_TEACHERS
   \<and> \<lparr>rowId = 3, personId = ''T2'', campusId = ''C1'', isPrimary = True, status = ACTIVE\<rparr>
      \<in> set (TeacherCampus (snd (TeacherCampusService_updateAssignmentStatus 3 ACTIVE exampleStore)))
   \<and> \<lparr>rowId = 3, personId = ''T2'', campusId = ''C1'', isPrimary = True, status = ACTIVE\<rparr>
      \<in> set (TeacherCampus (snd (CampusTeacherService_updateTeacherCampusStatus
            examplePermission ''admin'' ''C1'' ''T2'' ACTIVE exampleStore)))
   \<and> \<lparr>rowId = 5, personId = ''P1'', campusId = ''C1'', isPrimary = True, status = ACTIVE\<rparr>
      \<in> set (StudentCampus exampleStore)
   \<and> examplePermission ''admin'' ''C1'' MANAGE_CAMPUS_STUDENTS
   \<and> \<lparr>rowId = 5, personId = ''P1'', campusId = ''C1'', isPrimary = True, status = ARCHIVED\<rparr>
      \<in> set (StudentCampus (snd (CampusStudentService_updateStudentCampusStatus
            examplePermission ''admin'' ''C1'' ''P1'' ARCHIVED exampleStore)))
   \<and> \<not> isStatusUpdate (CT_setPrimary ''admin'' ''T2'' ''C2'')
   \<and> keepsStatus (nextId exampleStore) (TeacherCampus exampleStore)
        (TeacherCampus (exec examplePermission (CT_setPrimary ''admin'' ''T2'' ''C2'') exampleStore))
   \<and> keepsStatus (nextId exampleStore) (StudentCampus exampleStore)
        (StudentCampus (exec examplePermission (CT_setPrimary ''admin'' ''T2'' ''C2'') exampleStore))"
proof -
  let ?r3 = "\<lparr>rowId = 3, personId = ''T2'', campusId = ''C1'', isPrimary = True, status = ARCHIVED\<rparr>"
  let ?r5 = "\<lparr>rowId = 5, personId = ''P1'', campusId = ''C1'', isPrimary = True, status = ACTIVE\<rparr>"
  have h: "?r3 \<in> set (TeacherCampus exampleStore)"
    "examplePermission ''admin'' ''C1'' MANAGE_CAMPUS_TEACHERS"
    "?r5 \<in> set (StudentCampus exampleStore)"
    "examplePermission ''admin'' ''C1'' MANAGE_CAMPUS_STUDENTS"
    "\<not> isStatusUpdate (CT_setPrimary ''admin'' ''T2'' ''C2'')"
    by (simp_all add: exampleStore_def examplePermission_def)
  show ?thesis
    using h
      status_overwritten_by_update_only[where r = ?r3 and d = exampleStore and tcId = 3
        and s = ACTIVE and hasPermission = examplePermission and userId = "''admin''"
        and cId = "''C1''" and pId = "''T2''" and x = "CT_setPrimary ''admin'' ''T2'' ''C2''"]
      status_overwritten_by_update_only[where r = ?r5 and d = exampleStore and tcId = 5
        and s = ARCHIVED and hasPermission = examplePermission and userId = "''admin''"
        and cId = "''C1''" and pId = "''P1''" and x = "CT_setPrimary ''admin'' ''T2'' ''C2''"]
    by simp
qed

section \<open>C9: setPrimaryCampus is idempotent\<close>

text \<open>
  Claim C9. A second call of \<^verbatim>\<open>setPrimaryCampus\<close> with the same arguments, on the
  store the first call left, returns what the first call returned and leaves the store the
  first call left, for the teacher service and for the student service. This holds for
  every store, so in particular when the person has an assignment at the target campus.
\<close>

theorem setPrimaryCampus_idempotent:
  "CampusTeacherService_setPrimaryCampus userId tId cId
      (snd (CampusTeacherService_setPrimaryCampus userId tId cId d))
     = CampusTeacherService_setPrimaryCampus userId tId cId d
   \<and> CampusStudentService_setPrimaryCampus hasPermission userId sId cId
      (snd (CampusStudentService_setPrimaryCampus hasPermission userId sId cId d))
     = CampusStudentService_setPrimaryCampus hasPermission userId sId cId d"
  by (simp add: CT_setPrimary_twice CS_setPrimary_twice)

theorem setPrimaryCampus_idempotent_witness:
  "selectByPair ''T2'' ''C2'' (TeacherCampus exampleStore) \<noteq> []
   \<and> selectByPair ''P1'' ''C1'' (StudentCampus exampleStore) \<noteq> []
   \<and> CampusTeacherService_setPrimaryCampus ''admin'' ''T2'' ''C2''
        (snd (CampusTeacherService_setPrimaryCampus ''admin'' ''T2'' ''C2'' exampleStore))
       = CampusTeacherService_setPrimaryCampus ''admin'' ''T2'' ''C2'' exampleStore
   \<and> CampusStudentService_setPrimaryCampus examplePermission ''admin'' ''P1'' ''C1''
        (snd (CampusStudentService_setPrimaryCampus examplePermission ''admin'' ''P1'' ''C1''
                exampleStore))
       = CampusStudentService_setPrimaryCampus examplePermission ''admin'' ''P1'' ''C1'' exampleStore"
proof -
  have h: "selectByPair ''T2'' ''C2'' (TeacherCampus exampleStore) \<noteq> []"
    "selectByPair ''P1'' ''C1'' (StudentCampus exampleStore) \<noteq> []"
    by (simp_all add: exampleStore_def selectByPair_def)
  show ?thesis
    using h setPrimaryCampus_idempotent[where userId = "''admin''" and tId = "''T2''"
        and cId = "''C2''" and d = exampleStore]
      setPrimaryCampus_idempotent[where userId = "''admin''" and sId = "''P1''"
        and cId = "''C1''" and d = exampleStore and hasPermission = examplePermission]
    by blast
qed

section \<open>C10: the clear-primary step ignores the status\<close>

text \<open>
  Claim C10. The clear-primary statement leaves no primary row for the person, whatever
  the status of the rows. Hence, in stores that respect the unique index on (person,
  campus): after a successful assignment with \<open>isPrimary = true\<close> (by
  \<^verbatim>\<open>TeacherCampusService\<close> or \<^verbatim>\<open>CampusStudentService\<close>) and after a successful
  \<^verbatim>\<open>setPrimaryCampus\<close> (by \<^verbatim>\<open>CampusTeacherService\<close> or
  \<^verbatim>\<open>CampusStudentService\<close>), the rows of the person that are primary, of every
  status, are exactly those at the target campus, and there is at most one: a primary flag
  on an inactive or archived row at another campus has been cleared.
  \<^verbatim>\<open>CampusTeacherService.assignTeacherToCampus\<close> with \<open>isPrimary = true\<close>, once
  past its checks, runs the same statement and then throws at its \<^verbatim>\<open>INSERT\<close>: the
  table it leaves is the table with the primary flags of the person cleared, rows of every
  status included.
\<close>

theorem clear_primary_ignores_status:
  assumes "uniquePairs (TeacherCampus d)" and "uniquePairs (StudentCampus d)"
  shows "(\<forall>r \<in> set (unsetPrimary pId rows). personId r = pId \<longrightarrow> \<not> isPrimary r)
   \<and> ((isSuperAdmin d userId \<or> hasPermission userId cId MANAGE_CAMPUS_TEACHERS)
        \<and> pId \<in> set (teacherProfile d) \<and> cId \<in> set (campus d)
        \<and> selectByPair pId cId (TeacherCampus d) = []
        \<longrightarrow> CampusTeacherService_assignTeacherToCampus hasPermission userId cId pId True d
            = (Inl STORE_ERROR, d\<lparr>TeacherCampus := unsetPrimary pId (TeacherCampus d)\<rparr>))
   \<and> (fst (TeacherCampusService_assignTeacherToCampus pId cId True st d) = Inr resB
        \<longrightarrow> solePrimaryAt pId cId (TeacherCampus (snd
              (TeacherCampusService_assignTeacherToCampus pId cId True st d))))
   \<and> (fst (CampusStudentService_assignStudentToCampus hasPermission userId cId pId True d) = Inr resC
        \<longrightarrow> solePrimaryAt pId cId (StudentCampus (snd
              (CampusStudentService_assignStudentToCampus hasPermission userId cId pId True d))))
   \<and> (fst (CampusTeacherService_setPrimaryCampus userId pId cId d) = Inr resD
        \<longrightarrow> solePrimaryAt pId cId (TeacherCampus (snd
              (CampusTeacherService_setPrimaryCampus userId pId cId d))))
   \<and> (fst (CampusStudentService_setPrimaryCampus hasPermission userId pId cId d) = Inr resE
        \<longrightarrow> solePrimaryAt pId cId (StudentCampus (snd
              (CampusStudentService_setPrimaryCampus hasPermission userId pId cId d))))"
proof (intro conjI impI)
  show "\<forall>r \<in> set (unsetPrimary pId rows). personId r = pId \<longrightarrow> \<not> isPrimary r"
    by (rule unsetPrimary_clears)
next
  assume "(isSuperAdmin d userId \<or> hasPermission userId cId MANAGE_CAMPUS_TEACHERS)
        \<and> pId \<in> set (teacherProfile d) \<and> cId \<in> set (campus d)
        \<and> selectByPair pId cId (TeacherCampus d) = []"
  then show "CampusTeacherService_assignTeacherToCampus hasPermission userId cId pId True d
            = (Inl STORE_ERROR, d\<lparr>TeacherCampus := unsetPrimary pId (TeacherCampus d)\<rparr>)"
    by (auto simp: CT_assign_throws)
qed (simp_all add: assms TC_assign_sole CS_assign_sole CT_setPrimary_sole CS_setPrimary_sole)


theorem clear_primary_ignores_status_witness:
  "uniquePairs (TeacherCampus exampleStore) \<and> uniquePairs (StudentCampus exampleStore)
   \<and> map status (filter isPrimary (TeacherCampus exampleStore)) = [ACTIVE, ARCHIVED]
   \<and> filter (\<lambda>r. personId r = ''T2'' \<and> isPrimary r)
         (unsetPrimary ''T2'' (TeacherCampus exampleStore)) = []
   \<and> isSuperAdmin exampleStore ''root''
   \<and> ''T2'' \<in> set (teacherProfile exampleStore) \<and> ''C3'' \<in> set (campus exampleStore)
   \<and> selectByPair ''T2'' ''C3'' (TeacherCampus exampleStore) = []
   \<and> fst (CampusTeacherService_assignTeacherToCampus examplePermission ''root'' ''C3'' ''T2'' True
          exampleStore) = Inl STORE_ERROR
   \<and> TeacherCampus (snd
          (CampusTeacherService_assignTeacherToCampus examplePermission ''root'' ''C3'' ''T2'' True
             exampleStore))
        = [\<lparr>rowId = 1, personId = ''T1'', campusId = ''C1'', isPrimary = False, status = ACTIVE\<rparr>,
           \<lparr>rowId = 2, personId = ''T1'', campusId = ''C2'', isPrimary = True, status = ACTIVE\<rparr>,
           \<lparr>rowId = 3, personId = ''T2'', campusId = ''C1'', isPrimary = False, status = ARCHIVED\<rparr>,
           \<lparr>rowId = 4, personId = ''T2'', campusId = ''C2'', isPrimary = False, status = INACTIVE\<rparr>]
   \<and> fst (TeacherCampusService_assignTeacherToCampus ''T2'' ''C3'' True (Some INACTIVE) exampleStore)
        = Inr \<lparr>rowId = 9, personId = ''T2'', campusId = ''C3'', isPrimary = True, status = INACTIVE\<rparr>
   \<and> solePrimaryAt ''T2'' ''C3'' (TeacherCampus (snd
          (TeacherCampusService_assignTeacherToCampus ''T2'' ''C3'' True (Some INACTIVE) exampleStore)))
   \<and> fst (CampusTeacherService_setPrimaryCampus ''root'' ''T2'' ''C2'' exampleStore)
        = Inr (TeacherCampusAssignment ''T2'' ''C2'' True INACTIVE)
   \<and> solePrimaryAt ''T2'' ''C2'' (TeacherCampus (snd
          (CampusTeacherService_setPrimaryCampus ''root'' ''T2'' ''C2'' exampleStore)))
   \<and> fst (CampusStudentService_assignStudentToCampus examplePermission ''admin'' ''C2'' ''P1'' True
          exampleStore)
        = Inr \<lparr>rowId = 9, personId = ''P1'', campusId = ''C2'', isPrimary = True, status = ACTIVE\<rparr>
   \<and> solePrimaryAt ''P1'' ''C2'' (StudentCampus (snd
          (CampusStudentService_assignStudentToCampus examplePermission ''admin'' ''C2'' ''P1'' True
             exampleStore)))
   \<and> fst (CampusStudentService_setPrimaryCampus examplePermission ''admin'' ''P1'' ''C1'' exampleStore)
        = Inr \<lparr>rowId = 5, personId = ''P1'', campusId = ''C1'', isPrimary = True, status = ACTIVE\<rparr>
   \<and> solePrimaryAt ''P1'' ''C1'' (StudentCampus (snd
          (CampusStudentService_setPrimaryCampus examplePermission ''admin'' ''P1'' ''C1'' exampleStore)))"
proof -
  have u: "uniquePairs (TeacherCampus exampleStore)" "uniquePairs (StudentCampus exampleStore)"
    by (simp_all add: exampleStore_def uniquePairs_def)
  have p: "map status (filter isPrimary (TeacherCampus exampleStore)) = [ACTIVE, ARCHIVED]"
    by (simp add: exampleStore_def)
  have h1: "isSuperAdmin exampleStore ''root''"
    "''T2'' \<in> set (teacherProfile exampleStore)" "''C3'' \<in> set (campus exampleStore)"
    "selectByPair ''T2'' ''C3'' (TeacherCampus exampleStore) = []"
    by (simp_all add: example_defs)
  have h2: "fst (TeacherCampusService_assignTeacherToCampus ''T2'' ''C3'' True (Some INACTIVE) exampleStore)
        = Inr \<lparr>rowId = 9, personId = ''T2'', campusId = ''C3'', isPrimary = True, status = INACTIVE\<rparr>"
    by (simp add: TeacherCampusService_assignTeacherToCampus_def example_defs)
  have h3: "fst (CampusStudentService_assignStudentToCampus examplePermission ''admin'' ''C2'' ''P1'' True
          exampleStore)
        = Inr \<lparr>rowId = 9, personId = ''P1'', campusId = ''C2'', isPrimary = True, status = ACTIVE\<rparr>"
    by (simp add: CampusStudentService_assignStudentToCampus_def example_defs)
  have h4: "fst (CampusTeacherService_setPrimaryCampus ''root'' ''T2'' ''C2'' exampleStore)
        = Inr (TeacherCampusAssignment ''T2'' ''C2'' True INACTIVE)"
    by (simp add: CampusTeacherService_setPrimaryCampus_def example_defs)
  have h5: "fst (CampusStudentService_setPrimaryCampus examplePermission ''admin'' ''P1'' ''C1'' exampleStore)
        = Inr \<lparr>rowId = 5, personId = ''P1'', campusId = ''C1'', isPrimary = True, status = ACTIVE\<rparr>"
    by (simp add: CampusStudentService_setPrimaryCampus_def example_defs)
  have e: "unsetPrimary ''T2'' (TeacherCampus exampleStore)
        = [\<lparr>rowId = 1, personId = ''T1'', campusId = ''C1'', isPrimary = False, status = ACTIVE\<rparr>,
           \<lparr>rowId = 2, personId = ''T1'', campusId = ''C2'', isPrimary = True, status = ACTIVE\<rparr>,
           \<lparr>rowId = 3, personId = ''T2'', campusId = ''C1'', isPrimary = False, status = ARCHIVED\<rparr>,
           \<lparr>rowId = 4, personId = ''T2'', campusId = ''C2'', isPrimary = False, status = INACTIVE\<rparr>]"
    by (simp add: exampleStore_def unsetPrimary_def)
  note t = clear_primary_ignores_status[OF u, where rows = "TeacherCampus exampleStore"]
  have "\<forall>r \<in> set (unsetPrimary ''T2'' (TeacherCampus exampleStore)).
         personId r = ''T2'' \<longrightarrow> \<not> isPrimary r"
    using t[where pId = "''T2''"] by blast
  then have c0: "filter (\<lambda>r. personId r = ''T2'' \<and> isPrimary r)
         (unsetPrimary ''T2'' (TeacherCampus exampleStore)) = []"
    unfolding filter_empty_conv by blast
  have "CampusTeacherService_assignTeacherToCampus examplePermission ''root'' ''C3'' ''T2'' True
          exampleStore
        = (Inl STORE_ERROR,
           exampleStore\<lparr>TeacherCampus := unsetPrimary ''T2'' (TeacherCampus exampleStore)\<rparr>)"
    using h1 t[where hasPermission = examplePermission and userId = "''root''" and cId = "''C3''"
        and pId = "''T2''"]
    by blast
  then have c1: "fst (CampusTeacherService_assignTeacherToCampus examplePermission ''root'' ''C3'' ''T2'' True
          exampleStore) = Inl STORE_ERROR"
    "TeacherCampus (snd
          (CampusTeacherService_assignTeacherToCampus examplePermission ''root'' ''C3'' ''T2'' True
             exampleStore))
        = [\<lparr>rowId = 1, personId = ''T1'', campusId = ''C1'', isPrimary = False, status = ACTIVE\<rparr>,
           \<lparr>rowId = 2, personId = ''T1'', campusId = ''C2'', isPrimary = True, status = ACTIVE\<rparr>,
           \<lparr>rowId = 3, personId = ''T2'', campusId = ''C1'', isPrimary = False, status = ARCHIVED\<rparr>,
           \<lparr>rowId = 4, personId = ''T2'', campusId = ''C2'', isPrimary = False, status = INACTIVE\<rparr>]"
    using e by simp_all
  have c2: "solePrimaryAt ''T2'' ''C3'' (TeacherCampus (snd
          (TeacherCampusService_assignTeacherToCampus ''T2'' ''C3'' True (Some INACTIVE) exampleStore)))"
    using h2 t[where cId = "''C3''" and pId = "''T2''" and st = "Some INACTIVE"
        and resB = "\<lparr>rowId = 9, personId = ''T2'', campusId = ''C3'', isPrimary = True, status = INACTIVE\<rparr>"]
    by blast
  have c3: "solePrimaryAt ''P1'' ''C2'' (StudentCampus (snd
          (CampusStudentService_assignStudentToCampus examplePermission ''admin'' ''C2'' ''P1'' True
             exampleStore)))"
    using h3 t[where hasPermission = examplePermission and userId = "''admin''" and cId = "''C2''"
        and pId = "''P1''"
        and resC = "\<lparr>rowId = 9, personId = ''P1'', campusId = ''C2'', isPrimary = True, status = ACTIVE\<rparr>"]
    by blast
  have c4: "solePrimaryAt ''T2'' ''C2'' (TeacherCampus (snd
          (CampusTeacherService_setPrimaryCampus ''root'' ''T2'' ''C2'' exampleStore)))"
    using h4 t[where userId = "''root''" and cId = "''C2''" and pId = "''T2''"
        and resD = "TeacherCampusAssignment ''T2'' ''C2'' True INACTIVE"]
    by blast
  have c5: "solePrimaryAt ''P1'' ''C1'' (StudentCampus (snd
          (CampusStudentService_setPrimaryCampus examplePermission ''admin'' ''P1'' ''C1'' exampleStore)))"
    using h5 t[where hasPermission = examplePermission and userId = "''admin''" and cId = "''C1''"
        and pId = "''P1''"
        and resE = "\<lparr>rowId = 5, personId = ''P1'', campusId = ''C1'', isPrimary = True, status = ACTIVE\<rparr>"]
    by blast
  show ?thesis
    using u p h1 h2 h3 h4 h5 c0 c1 c2 c3 c4 c5 by blast
qed


end
